theory Spec2Isabelle
  imports Main "HOL-Library.Sublist" "HOL-Library.AList"
begin

section \<open>Data model\<close>

text \<open>
  \<^verbatim>\<open>TextInput\<close> is a string or a sequence of strings. Keyword dictionaries
  (\<^verbatim>\<open>generation_args\<close>, \<^verbatim>\<open>**kwargs\<close>) are association lists, so that the
  emptiness test \<^verbatim>\<open>if generation_args:\<close> is a test on the list.
\<close>

datatype text_input = Single string | Many "string list"

datatype pyval =
    PBool bool
  | PInt int
  | PStr string
  | PStrList "string list"
  | PIds "nat list list"
  | PDict "(string \<times> pyval) list"

type_synonym kwargs = "(string \<times> pyval) list"

text \<open>
  Every exception the source raises itself is a constructor of its own. \<open>Raised\<close>
  carries an exception that comes out of a collaborator whose code is not part of
  the source (device check, tokenizer, generation backend, method loader,
  attribution method, output merging).
\<close>

datatype error =
    ValueError string
  | LengthMismatchError
  | MissingAttributionMethodError
  | AssertionError string
  | IndexError
  | ZeroDivisionError
  | AttributeError
  | Raised string

record feature_attribution =
  method_name :: string

datatype callable = Callable string

datatype attributed_fn_arg = FnKey string | FnCallable callable

record batch_encoding =
  input_ids :: "nat list list"

record feature_attribution_output =
  sequence_attributions :: "int list list"
  info :: "string \<rightharpoonup> pyval"

text \<open>The keyword arguments of the call at lines 286-302.\<close>

record dispatch_args =
  d_input_texts :: "string list"
  d_generated_texts :: "string list"
  d_batch_size :: "int option"
  d_attr_pos_start :: "int option"
  d_attr_pos_end :: "int option"
  d_show_progress :: bool
  d_pretty_progress :: bool
  d_output_step_attributions :: bool
  d_attribute_target :: bool
  d_step_scores :: "string list"
  d_include_eos_baseline :: bool
  d_attributed_fn :: callable
  d_attribution_args :: kwargs
  d_attributed_fn_args :: kwargs
  d_step_scores_args :: kwargs

text \<open>
  What the code does to the outside world is recorded as a list of events: the
  messages it logs and the effectful calls it makes on its collaborators.
\<close>

datatype level = Warning | Info | Debug

datatype log_message =
    Attribute_target_ignored
  | Generate_from_target_prefix_ignored
  | Splitting_into_batches int int
  | Generation_args_ignored kwargs
  | Reference_texts "string list"
  | Pretty_progress_not_supported
  | Batched_constrained_decoding_not_supported
  | Custom_positions_not_supported
  | Batched_lime_not_supported

datatype event =
    Log level log_message
  | Model_to string
  | Generate batch_encoding kwargs
  | Unhook feature_attribution
  | Load string
  | Prepare_and_attribute feature_attribution dispatch_args

text \<open>
  The fields of \<^verbatim>\<open>AttributionModel\<close> set in \<^verbatim>\<open>__init__\<close> (lines 68-79) that
  the code below reads or writes. \<open>model\<close> says whether \<^verbatim>\<open>self.model\<close> is set;
  \<open>priv_device\<close> and \<open>priv_default_attributed_fn_id\<close> are \<^verbatim>\<open>_device\<close> and
  \<^verbatim>\<open>_default_attributed_fn_id\<close>. \<open>events\<close> is the record of effects, which the
  code never reads.
\<close>

record attribution_model =
  model :: bool
  is_encoder_decoder :: bool
  priv_device :: "string option"
  attribution_method :: "feature_attribution option"
  priv_default_attributed_fn_id :: string
  events :: "event list"

text \<open>
  The collaborators that the source imports but does not define are parameters.
  A collaborator that can raise returns \<open>Inl\<close> with the exception's text
  (\<open>Some\<close> of it where it returns nothing).
\<close>

record backend =
  check_device :: "string \<Rightarrow> string option"
  model_to :: "string \<Rightarrow> string option"
  encode :: "string list option \<Rightarrow> bool \<Rightarrow> bool \<Rightarrow> bool \<Rightarrow> string + batch_encoding"
  generate :: "batch_encoding \<Rightarrow> kwargs \<Rightarrow> string + string list"
  load :: "string \<Rightarrow> string + feature_attribution"
  STEP_SCORES_MAP :: "string \<rightharpoonup> callable"
  extract_args :: "feature_attribution \<Rightarrow> callable \<Rightarrow> string list \<Rightarrow> string list \<Rightarrow> kwargs
                     \<Rightarrow> string + (kwargs \<times> kwargs \<times> kwargs)"
  isnotebook :: bool
  prepare_and_attribute :: "feature_attribution \<Rightarrow> dispatch_args \<Rightarrow> string + int list list list"
  merge_attributions :: "int list list list \<Rightarrow> string + feature_attribution_output"

section \<open>Sequencing of calls that may raise\<close>

type_synonym 'a action = "attribution_model \<Rightarrow> (error + 'a) \<times> attribution_model"

definition return_ok :: "'a \<Rightarrow> 'a action" where
  "return_ok x = (\<lambda>m. (Inr x, m))"

definition raise :: "error \<Rightarrow> 'a action" where
  "raise e = (\<lambda>m. (Inl e, m))"

definition and_then :: "'a action \<Rightarrow> ('a \<Rightarrow> 'b action) \<Rightarrow> 'b action" where
  "and_then f g = (\<lambda>m. case f m of (Inl e, m') \<Rightarrow> (Inl e, m') | (Inr x, m') \<Rightarrow> g x m')"

definition read :: "(attribution_model \<Rightarrow> 'a) \<Rightarrow> 'a action" where
  "read fld = (\<lambda>m. (Inr (fld m), m))"

definition emit :: "event \<Rightarrow> unit action" where
  "emit ev = (\<lambda>m. (Inr (), m\<lparr>events := events m @ [ev]\<rparr>))"

definition lift :: "error + 'a \<Rightarrow> 'a action" where
  "lift r = (\<lambda>m. (r, m))"

definition collaborator :: "string + 'a \<Rightarrow> 'a action" where
  "collaborator r = (case r of Inl msg \<Rightarrow> raise (Raised msg) | Inr x \<Rightarrow> return_ok x)"

definition emitted :: "attribution_model \<Rightarrow> attribution_model \<Rightarrow> event list" where
  "emitted m m' = drop (length (events m)) (events m')"

section \<open>Python truthiness\<close>

fun truthy_text_input :: "text_input \<Rightarrow> bool" where
  "truthy_text_input (Single s) = (s \<noteq> [])"
| "truthy_text_input (Many ts) = (ts \<noteq> [])"

fun truthy_str :: "string option \<Rightarrow> bool" where
  "truthy_str None = False"
| "truthy_str (Some s) = (s \<noteq> [])"

section \<open>Properties and setters (lines 81-108)\<close>

definition device :: "attribution_model \<Rightarrow> string option" where
  "device m = priv_device m"

definition set_device :: "backend \<Rightarrow> string \<Rightarrow> unit action" where
  "set_device env new_device =
     and_then (case check_device env new_device of
                 Some msg \<Rightarrow> raise (Raised msg)
               | None \<Rightarrow> return_ok ()) (\<lambda>_.
     and_then (\<lambda>m. (Inr (), m\<lparr>priv_device := Some new_device\<rparr>)) (\<lambda>_.
     and_then (read model) (\<lambda>present.
       if present
       then and_then (emit (Model_to new_device)) (\<lambda>_.
              case model_to env new_device of
                Some msg \<Rightarrow> raise (Raised msg)
              | None \<Rightarrow> return_ok ())
       else return_ok ())))"

definition default_attributed_fn_id :: "attribution_model \<Rightarrow> string" where
  "default_attributed_fn_id m = priv_default_attributed_fn_id m"

definition unknown_function :: "string \<Rightarrow> string" where
  "unknown_function fn =
     ''Unknown function: '' @ fn @ ''. Register custom functions with inseq.register_step_function''"

definition set_attributed_fn :: "backend \<Rightarrow> string \<Rightarrow> unit action" where
  "set_attributed_fn env fn =
     (\<lambda>m. if STEP_SCORES_MAP env fn = None
          then (Inl (ValueError (unknown_function fn)), m)
          else (Inr (), m\<lparr>priv_default_attributed_fn_id := fn\<rparr>))"

text \<open>
  A Python \<^verbatim>\<open>property\<close> object holds a getter and possibly a setter.
  \<^verbatim>\<open>@property\<close> builds one with a getter only; \<^verbatim>\<open>p.setter(f)\<close> returns a copy
  of \<^verbatim>\<open>p\<close> with the setter \<^verbatim>\<open>f\<close>, and the decorator binds that copy to the
  name of the decorated function. Assigning to an attribute that the class binds
  to a property calls its setter, and raises \<^verbatim>\<open>AttributeError\<close> when it has
  none.
\<close>

record py_property =
  fget :: "attribution_model \<Rightarrow> string option"
  fset :: "(string \<Rightarrow> unit action) option"

definition property :: "(attribution_model \<Rightarrow> string option) \<Rightarrow> py_property" where
  "property g = \<lparr>fget = g, fset = None\<rparr>"

definition setter :: "py_property \<Rightarrow> (string \<Rightarrow> unit action) \<Rightarrow> py_property" where
  "setter p f = p\<lparr>fset := Some f\<rparr>"

fun bind_name :: "(string \<times> py_property) list \<Rightarrow> string \<Rightarrow> py_property
                    \<Rightarrow> (string \<times> py_property) list" where
  "bind_name ns name p = AList.update name p ns"

text \<open>
  The class body, lines 81-108, read top to bottom: \<^verbatim>\<open>device\<close> is decorated as
  a property and its setter is again named \<^verbatim>\<open>device\<close>;
  \<^verbatim>\<open>default_attributed_fn_id\<close> is decorated as a property and its setter is
  named \<^verbatim>\<open>set_attributed_fn\<close>.
\<close>

definition class_properties :: "backend \<Rightarrow> (string \<times> py_property) list" where
  "class_properties env =
     (let ns0 = [];
          ns1 = bind_name ns0 ''device'' (property device);
          ns2 = (case map_of ns1 ''device'' of
                   Some p \<Rightarrow> bind_name ns1 ''device'' (setter p (set_device env))
                 | None \<Rightarrow> ns1);
          ns3 = bind_name ns2 ''default_attributed_fn_id''
                  (property (\<lambda>m. Some (default_attributed_fn_id m)));
          ns4 = (case map_of ns3 ''default_attributed_fn_id'' of
                   Some p \<Rightarrow> bind_name ns3 ''set_attributed_fn'' (setter p (set_attributed_fn env))
                 | None \<Rightarrow> ns3)
      in ns4)"

text \<open>
  Assignment \<^verbatim>\<open>obj.name = value\<close> for a name the class binds to a property.
  \<open>None\<close> for any other name, which is an ordinary attribute and not a matter
  of this development.
\<close>

definition assign :: "backend \<Rightarrow> string \<Rightarrow> string \<Rightarrow> attribution_model
                        \<Rightarrow> ((error + unit) \<times> attribution_model) option" where
  "assign env name v m =
     (case map_of (class_properties env) name of
        None \<Rightarrow> None
      | Some p \<Rightarrow>
          (case fset p of
             None \<Rightarrow> Some (Inl AttributeError, m)
           | Some f \<Rightarrow> Some (f v m)))"

section \<open>Resolving the method and the attributed function (lines 117-150)\<close>

text \<open>
  \<^verbatim>\<open>not method\<close> holds for \<^verbatim>\<open>None\<close> and for the empty string.
  \<^verbatim>\<open>unhook\<close> and \<^verbatim>\<open>FeatureAttribution.load\<close> are collaborators: the calls are
  recorded, and \<open>load\<close> may raise.
\<close>

definition get_attribution_method :: "backend \<Rightarrow> string option \<Rightarrow> bool \<Rightarrow> feature_attribution action" where
  "get_attribution_method env meth override_default_attribution =
     (case (if truthy_str meth then meth else None) of
        None \<Rightarrow>
          and_then (read attribution_method) (\<lambda>bound.
            case bound of
              None \<Rightarrow> raise MissingAttributionMethodError
            | Some fa \<Rightarrow> return_ok fa)
      | Some name \<Rightarrow>
          and_then (read attribution_method) (\<lambda>bound.
          and_then (case bound of
                      Some fa \<Rightarrow> emit (Unhook fa)
                    | None \<Rightarrow> return_ok ()) (\<lambda>_.
          if override_default_attribution \<or> bound = None
          then and_then (emit (Load name)) (\<lambda>_.
               and_then (collaborator (load env name)) (\<lambda>loaded.
               and_then (\<lambda>m. (Inr (), m\<lparr>attribution_method := Some loaded\<rparr>)) (\<lambda>_.
               return_ok loaded)))
          else and_then (emit (Load name)) (\<lambda>_.
               collaborator (load env name)))))"

definition get_attributed_fn :: "backend \<Rightarrow> attribution_model \<Rightarrow> attributed_fn_arg option
                                   \<Rightarrow> error + callable" where
  "get_attributed_fn env m attributed_fn =
     (let fn = (case attributed_fn of
                  None \<Rightarrow> FnKey (default_attributed_fn_id m)
                | Some f \<Rightarrow> f)
      in case fn of
           FnKey key \<Rightarrow>
             (case STEP_SCORES_MAP env key of
                None \<Rightarrow> Inl (ValueError (unknown_function key))
              | Some f \<Rightarrow> Inr f)
         | FnCallable f \<Rightarrow> Inr f)"

section \<open>Normalising the text arguments\<close>

text \<open>
  Modelled from the spec: \<^verbatim>\<open>format_input_texts\<close> (imported at line 16 from the
  package's utilities) is not part of the source. The specification says that it
  normalises the input and target text arguments into parallel sequences of equal
  length, a single string being promoted to a sequence of length one, and that
  mismatched lengths fail with a length-mismatch error.
\<close>

fun as_list :: "text_input \<Rightarrow> string list" where
  "as_list (Single s) = [s]"
| "as_list (Many ts) = ts"

definition format_input_texts :: "text_input \<Rightarrow> text_input option
                                    \<Rightarrow> error + (string list \<times> string list option)" where
  "format_input_texts texts ref_texts =
     (let ts = as_list texts;
          refs = map_option as_list ref_texts
      in case refs of
           None \<Rightarrow> Inr (ts, None)
         | Some rs \<Rightarrow> if length rs \<noteq> length ts then Inl LengthMismatchError else Inr (ts, Some rs))"

section \<open>The orchestration: attribute (lines 152-313)\<close>

record attribute_args =
  input_texts :: text_input
  generated_texts :: "text_input option"
  method_arg :: "string option"
  override_default_attribution :: bool
  attr_pos_start :: "int option"
  attr_pos_end :: "int option"
  show_progress :: bool
  pretty_progress :: bool
  output_step_attributions :: bool
  attribute_target :: bool
  step_scores :: "string list"
  include_eos_baseline :: bool
  attributed_fn :: "attributed_fn_arg option"
  device_arg :: "string option"
  batch_size :: "int option"
  generate_from_target_prefix :: bool
  generation_args :: kwargs
  kwargs :: kwargs

text \<open>The local variables of \<^verbatim>\<open>attribute\<close> when control reaches line 267.\<close>

record prepared =
  p_attribute_target :: bool
  p_generate_from_target_prefix :: bool
  p_original_device :: "string option"
  p_input_texts :: "string list"
  p_generated_texts :: "string list"
  p_has_generated_texts :: bool
  p_generation_args :: kwargs
  p_attribution_method :: feature_attribution
  p_attributed_fn :: callable
  p_attribution_args :: kwargs
  p_attributed_fn_args :: kwargs
  p_step_scores_args :: kwargs
  p_pretty_progress :: bool

definition DEFAULT_ATTRIBUTED_FN_ARGS :: "string list" where
  "DEFAULT_ATTRIBUTED_FN_ARGS =
     [''attribution_model'', ''forward_output'', ''encoder_input_ids'', ''decoder_input_ids'',
      ''encoder_input_embeds'', ''decoder_input_embeds'', ''target_ids'',
      ''encoder_attention_mask'', ''decoder_attention_mask'']"

text \<open>Lines 230-237: the two flags that only encoder-decoder models have.\<close>

definition disable_flag :: "bool \<Rightarrow> log_message \<Rightarrow> bool action" where
  "disable_flag flag msg =
     and_then (read is_encoder_decoder) (\<lambda>enc_dec.
       if flag \<and> \<not> enc_dec
       then and_then (emit (Log Warning msg)) (\<lambda>_. return_ok False)
       else return_ok flag)"

text \<open>
  Lines 242-244. Python's \<^verbatim>\<open>//\<close> and \<^verbatim>\<open>%\<close> are floor division and its
  remainder, as \<open>div\<close> and \<open>mod\<close> on \<open>int\<close>; a divisor of zero raises.
\<close>

definition log_batches :: "string list \<Rightarrow> int option \<Rightarrow> unit action" where
  "log_batches texts bs =
     (case bs of
        None \<Rightarrow> return_ok ()
      | Some b \<Rightarrow>
          if b = 0 then raise ZeroDivisionError
          else emit (Log Info (Splitting_into_batches
                 (int (length texts) div b + (if int (length texts) mod b > 0 then 1 else 0)) b)))"

text \<open>
  Lines 245-257: the target texts are generated unless they were supplied and
  are not to be used as prefixes. Returns them with the generation arguments,
  which line 251 extends.
\<close>

definition resolve_generated_texts :: "backend \<Rightarrow> attribute_args \<Rightarrow> string list \<Rightarrow> string list option
                                         \<Rightarrow> bool \<Rightarrow> (string list \<times> kwargs) action" where
  "resolve_generated_texts env a texts targets from_prefix =
     (case (if from_prefix then None else targets) of
        None \<Rightarrow>
          and_then (collaborator (encode env (Some texts) False True (include_eos_baseline a)))
            (\<lambda>encoded_input.
          and_then (if from_prefix
                    then and_then (collaborator (encode env targets True False False))
                           (\<lambda>decoder_input.
                              return_ok (AList.update ''decoder_input_ids''
                                           (PIds (input_ids decoder_input)) (generation_args a)))
                    else return_ok (generation_args a)) (\<lambda>gen_args.
          and_then (emit (Generate encoded_input gen_args)) (\<lambda>_.
          and_then (collaborator (generate env encoded_input gen_args)) (\<lambda>generated.
          return_ok (generated, gen_args)))))
      | Some supplied \<Rightarrow>
          and_then (if generation_args a \<noteq> []
                    then emit (Log Warning (Generation_args_ignored (generation_args a)))
                    else return_ok ()) (\<lambda>_.
          return_ok (supplied, generation_args a)))"

text \<open>Lines 228-266.\<close>

definition attribute_prepare :: "backend \<Rightarrow> attribute_args \<Rightarrow> prepared action" where
  "attribute_prepare env a =
     and_then (if \<not> truthy_text_input (input_texts a)
               then raise (ValueError ''At least one text must be provided to perform attribution.'')
               else return_ok ()) (\<lambda>_.
     and_then (disable_flag (attribute_target a) Attribute_target_ignored) (\<lambda>attr_target.
     and_then (disable_flag (generate_from_target_prefix a) Generate_from_target_prefix_ignored)
       (\<lambda>from_prefix.
     and_then (read device) (\<lambda>original_device.
     and_then (case device_arg a of
                 None \<Rightarrow> return_ok ()
               | Some d \<Rightarrow> set_device env d) (\<lambda>_.
     and_then (lift (format_input_texts (input_texts a) (generated_texts a))) (\<lambda>(texts, targets).
     and_then (log_batches texts (batch_size a)) (\<lambda>_.
     and_then (resolve_generated_texts env a texts targets from_prefix) (\<lambda>(generated, gen_args).
     and_then (emit (Log Debug (Reference_texts generated))) (\<lambda>_.
     and_then (get_attribution_method env (method_arg a) (override_default_attribution a)) (\<lambda>fa.
     and_then (\<lambda>m. (get_attributed_fn env m (attributed_fn a), m)) (\<lambda>fn.
     and_then (collaborator (extract_args env fa fn (step_scores a) DEFAULT_ATTRIBUTED_FN_ARGS
                               (kwargs a)))
       (\<lambda>(attribution_args, attributed_fn_args, step_scores_args).
     and_then (if isnotebook env
               then and_then (emit (Log Debug Pretty_progress_not_supported)) (\<lambda>_. return_ok False)
               else return_ok (pretty_progress a)) (\<lambda>pretty.
     return_ok \<lparr>p_attribute_target = attr_target,
                p_generate_from_target_prefix = from_prefix,
                p_original_device = original_device,
                p_input_texts = texts,
                p_generated_texts = generated,
                p_has_generated_texts = (targets \<noteq> None),
                p_generation_args = gen_args,
                p_attribution_method = fa,
                p_attributed_fn = fn,
                p_attribution_args = attribution_args,
                p_attributed_fn_args = attributed_fn_args,
                p_step_scores_args = step_scores_args,
                p_pretty_progress = pretty\<rparr>)))))))))))))"

text \<open>
  Lines 268-270: \<^verbatim>\<open>all\<close> over the generator stops at the first text that does
  not start with its input; indexing past the end of the generated texts raises.
\<close>

fun all_startswith :: "string list \<Rightarrow> string list \<Rightarrow> error + bool" where
  "all_startswith [] gs = Inr True"
| "all_startswith (t # ts) [] = Inl IndexError"
| "all_startswith (t # ts) (g # gs) = (if prefix t g then all_startswith ts gs else Inr False)"

definition forced_generation_message :: string where
  "forced_generation_message =
     ''Forced generations with decoder-only models must start with the input texts.''"

text \<open>Lines 267-285: the check on decoder-only models and the batch size.\<close>

definition decoder_only_batch_size :: "attribute_args \<Rightarrow> prepared \<Rightarrow> int option action" where
  "decoder_only_batch_size a p =
     and_then (lift (all_startswith (p_input_texts p) (p_generated_texts p))) (\<lambda>ok.
     and_then (if ok then return_ok () else raise (AssertionError forced_generation_message)) (\<lambda>_.
     and_then (if p_has_generated_texts p \<and> length (p_input_texts p) > 1
               then and_then (emit (Log Info Batched_constrained_decoding_not_supported))
                      (\<lambda>_. return_ok (Some 1))
               else return_ok (batch_size a)) (\<lambda>bs.
     if length (p_input_texts p) > 1 \<and> (attr_pos_start a \<noteq> None \<or> attr_pos_end a \<noteq> None)
     then and_then (emit (Log Info Custom_positions_not_supported)) (\<lambda>_. return_ok (Some 1))
     else return_ok bs)))"

definition effective_batch_size :: "attribute_args \<Rightarrow> prepared \<Rightarrow> int option action" where
  "effective_batch_size a p =
     and_then (read is_encoder_decoder) (\<lambda>enc_dec.
     and_then (if \<not> enc_dec then decoder_only_batch_size a p else return_ok (batch_size a)) (\<lambda>bs.
     if method_name (p_attribution_method p) = ''lime''
     then and_then (emit (Log Info Batched_lime_not_supported)) (\<lambda>_. return_ok (Some 1))
     else return_ok bs))"

definition dispatch_arguments :: "attribute_args \<Rightarrow> prepared \<Rightarrow> int option \<Rightarrow> dispatch_args" where
  "dispatch_arguments a p bs =
     \<lparr>d_input_texts = p_input_texts p,
      d_generated_texts = p_generated_texts p,
      d_batch_size = bs,
      d_attr_pos_start = attr_pos_start a,
      d_attr_pos_end = attr_pos_end a,
      d_show_progress = show_progress a,
      d_pretty_progress = p_pretty_progress p,
      d_output_step_attributions = output_step_attributions a,
      d_attribute_target = p_attribute_target p,
      d_step_scores = step_scores a,
      d_include_eos_baseline = include_eos_baseline a,
      d_attributed_fn = p_attributed_fn p,
      d_attribution_args = p_attribution_args p,
      d_attributed_fn_args = p_attributed_fn_args p,
      d_step_scores_args = p_step_scores_args p\<rparr>"

text \<open>
  Lines 304-310. The resolved texts are a list on both paths of lines 245-257,
  so the \<^verbatim>\<open>isinstance(generated_texts, str)\<close> alternative of line 306 is not
  taken.
\<close>

definition attach_info :: "prepared \<Rightarrow> feature_attribution_output \<Rightarrow> feature_attribution_output" where
  "attach_info p out =
     out\<lparr>info := (info out)
       (''input_texts'' \<mapsto> PStrList (p_input_texts p),
        ''generated_texts'' \<mapsto> PStrList (p_generated_texts p),
        ''generation_args'' \<mapsto> PDict (p_generation_args p),
        ''constrained_decoding'' \<mapsto> PBool (p_has_generated_texts p),
        ''generate_from_target_prefix'' \<mapsto> PBool (p_generate_from_target_prefix p))\<rparr>"

text \<open>Lines 267-313.\<close>

definition attribute_run :: "backend \<Rightarrow> attribute_args \<Rightarrow> prepared \<Rightarrow> feature_attribution_output action" where
  "attribute_run env a p =
     and_then (effective_batch_size a p) (\<lambda>bs.
     and_then (emit (Prepare_and_attribute (p_attribution_method p) (dispatch_arguments a p bs))) (\<lambda>_.
     and_then (collaborator (prepare_and_attribute env (p_attribution_method p)
                               (dispatch_arguments a p bs))) (\<lambda>attribution_outputs.
     and_then (collaborator (merge_attributions env attribution_outputs)) (\<lambda>merged.
     and_then (if truthy_str (device_arg a) \<and> truthy_str (p_original_device p)
               then (case p_original_device p of
                       Some d \<Rightarrow> set_device env d
                     | None \<Rightarrow> return_ok ())
               else return_ok ()) (\<lambda>_.
     return_ok (attach_info p merged))))))"

definition attribute :: "backend \<Rightarrow> attribute_args \<Rightarrow> feature_attribution_output action" where
  "attribute env a = and_then (attribute_prepare env a) (attribute_run env a)"

section \<open>A concrete setting\<close>

text \<open>
  A decoder-only model on the CPU with integrated gradients bound, as the
  repository's test loads it, and the call of that test with the texts of the
  specification's scenario.
\<close>

definition example_backend :: backend where
  "example_backend =
     \<lparr>check_device = (\<lambda>d. if d = ''cpu'' \<or> d = ''cuda'' then None else Some ''Unknown device''),
      model_to = (\<lambda>d. None),
      encode = (\<lambda>texts as_targets return_baseline include_eos.
                  case texts of
                    None \<Rightarrow> Inl ''no texts''
                  | Some ts \<Rightarrow> Inr \<lparr>input_ids = map (map (\<lambda>c. 1)) ts\<rparr>),
      generate = (\<lambda>enc args. Inr (map (\<lambda>ids. ''how much does it cost today'') (input_ids enc))),
      load = (\<lambda>name. if name = ''integrated_gradients'' \<or> name = ''lime'' \<or> name = ''saliency''
                       then Inr \<lparr>method_name = name\<rparr>
                       else Inl ''UnknownAttributionMethodError''),
      STEP_SCORES_MAP = [''probability'' \<mapsto> Callable ''probability_fn'',
                         ''entropy'' \<mapsto> Callable ''entropy_fn''],
      extract_args = (\<lambda>fa fn scores default_args kw. Inr (kw, [], [])),
      isnotebook = False,
      prepare_and_attribute = (\<lambda>fa d. Inr (map (\<lambda>t. [[1]]) (d_input_texts d))),
      merge_attributions = (\<lambda>outs. Inr \<lparr>sequence_attributions = concat outs, info = Map.empty\<rparr>)\<rparr>"

definition example_model :: attribution_model where
  "example_model =
     \<lparr>model = True,
      is_encoder_decoder = False,
      priv_device = Some ''cpu'',
      attribution_method = Some \<lparr>method_name = ''integrated_gradients''\<rparr>,
      priv_default_attributed_fn_id = ''probability'',
      events = []\<rparr>"

definition example_args :: attribute_args where
  "example_args =
     \<lparr>input_texts = Single ''how much is the cake?'',
      generated_texts = Some (Single ''how much is the cake? 350 rubles''),
      method_arg = None,
      override_default_attribution = False,
      attr_pos_start = None,
      attr_pos_end = None,
      show_progress = True,
      pretty_progress = False,
      output_step_attributions = False,
      attribute_target = False,
      step_scores = [],
      include_eos_baseline = False,
      attributed_fn = None,
      device_arg = None,
      batch_size = None,
      generate_from_target_prefix = False,
      generation_args = [],
      kwargs = [(''n_steps'', PInt 10)]\<rparr>"

text \<open>The same call with two texts and their targets, and a batch size of four.\<close>

definition two_texts_args :: attribute_args where
  "two_texts_args =
     example_args\<lparr>input_texts := Many [''how much'', ''how long''],
                   generated_texts := Some (Many [''how much is it'', ''how long is it'']),
                   batch_size := Some 4\<rparr>"


section \<open>Reasoning about sequences of calls\<close>

text \<open>
  \<open>holds I E f\<close>: from a state where \<open>I\<close> holds, \<open>f\<close> leaves a state where
  \<open>I\<close> holds, and an exception it raises satisfies \<open>E\<close>.
\<close>

definition holds :: "(attribution_model \<Rightarrow> bool) \<Rightarrow> (error \<Rightarrow> bool) \<Rightarrow> 'a action \<Rightarrow> bool" where
  "holds I E f = (\<forall>m. I m \<longrightarrow> I (snd (f m)) \<and> (\<forall>e. fst (f m) = Inl e \<longrightarrow> E e))"

text \<open>
  \<open>grown m m'\<close>: the events of \<open>m'\<close> are those of \<open>m\<close> and later ones.
  \<open>unchanged m m'\<close>: the two states have the same fields, the events apart.
\<close>

definition grown :: "attribution_model \<Rightarrow> attribution_model \<Rightarrow> bool" where
  "grown m m1 \<longleftrightarrow> (\<exists>new. events m1 = events m @ new)"

definition unchanged :: "attribution_model \<Rightarrow> attribution_model \<Rightarrow> bool" where
  "unchanged m m1 \<longleftrightarrow> model m1 = model m \<and> is_encoder_decoder m1 = is_encoder_decoder m
     \<and> priv_device m1 = priv_device m \<and> attribution_method m1 = attribution_method m
     \<and> priv_default_attributed_fn_id m1 = priv_default_attributed_fn_id m"

section \<open>Lemmas on sequencing\<close>

lemmas action_defs = return_ok_def raise_def and_then_def read_def emit_def lift_def collaborator_def

lemma and_then_Inr:
  "and_then f g m = (Inr y, m') \<longleftrightarrow> (\<exists>x m1. f m = (Inr x, m1) \<and> g x m1 = (Inr y, m'))"
  by (auto simp: and_then_def split: prod.splits sum.splits)

lemma and_then_cases:
  assumes "and_then f g m = (r, m')"
  obtains (fails) e where "f m = (Inl e, m')" "r = Inl e"
        | (continues) x m1 where "f m = (Inr x, m1)" "g x m1 = (r, m')"
  using assms by (auto simp: and_then_def split: prod.splits sum.splits)

lemma holdsD:
  "holds I E f \<Longrightarrow> I m \<Longrightarrow> f m = (r, m') \<Longrightarrow> I m' \<and> (\<forall>e. r = Inl e \<longrightarrow> E e)"
  by (auto simp: holds_def)

lemma holds_and_then:
  "holds I E f \<Longrightarrow> (\<And>x. holds I E (g x)) \<Longrightarrow> holds I E (and_then f g)"
  unfolding holds_def and_then_def
  apply (intro allI impI)
  subgoal for m
    apply (cases "f m")
    subgoal for r m1
      apply (cases r)
       apply (drule spec [of _ m]) apply simp
      apply (drule spec [of _ m]) apply simp
      done
    done
  done

lemma holds_return: "holds I E (return_ok x)"
  by (simp add: holds_def return_ok_def)

lemma holds_raise: "E e \<Longrightarrow> holds I E (raise e)"
  by (simp add: holds_def raise_def)

lemma holds_read: "holds I E (read fld)"
  by (simp add: holds_def read_def)

lemma holds_lift: "(\<And>e. r = Inl e \<Longrightarrow> E e) \<Longrightarrow> holds I E (lift r)"
  by (simp add: holds_def lift_def)

lemma holds_collaborator: "(\<And>msg. E (Raised msg)) \<Longrightarrow> holds I E (collaborator r)"
  by (cases r) (simp_all add: holds_def collaborator_def raise_def return_ok_def)

lemma holds_emit: "(\<And>m. I m \<Longrightarrow> I (m\<lparr>events := events m @ [ev]\<rparr>)) \<Longrightarrow> holds I E (emit ev)"
  by (simp add: holds_def emit_def)

lemma holds_if: "holds I E f \<Longrightarrow> holds I E g \<Longrightarrow> holds I E (if c then f else g)"
  by simp

lemma holds_case_option:
  "holds I E f \<Longrightarrow> (\<And>x. holds I E (g x)) \<Longrightarrow> holds I E (case opt of None \<Rightarrow> f | Some x \<Rightarrow> g x)"
  by (cases opt) simp_all

lemma holds_case_prod:
  "(\<And>x y. holds I E (f x y)) \<Longrightarrow> holds I E (case p of (x, y) \<Rightarrow> f x y)"
  by (cases p) simp

lemmas holds_intros = holds_and_then holds_return holds_read holds_if holds_case_option holds_case_prod

lemma guard_step:
  "(if \<not> c then raise e else return_ok ()) m = (r, m1) \<longleftrightarrow> (if c then r = Inr () else r = Inl e) \<and> m1 = m"
  by (auto simp: raise_def return_ok_def)

lemma read_step [simp]: "read fld m = (r, m1) \<longleftrightarrow> r = Inr (fld m) \<and> m1 = m"
  by (auto simp: read_def)

lemma lift_step [simp]: "lift r0 m = (r, m1) \<longleftrightarrow> r0 = r \<and> m1 = m"
  by (auto simp: lift_def)

lemma emit_step [simp]: "emit ev m = (r, m1) \<longleftrightarrow> r = Inr () \<and> m1 = m\<lparr>events := events m @ [ev]\<rparr>"
  by (auto simp: emit_def)

lemma return_step [simp]: "return_ok x m = (r, m1) \<longleftrightarrow> r = Inr x \<and> m1 = m"
  by (auto simp: return_ok_def)

lemma raise_step [simp]: "raise e m = (r, m1) \<longleftrightarrow> r = Inl e \<and> m1 = m"
  by (auto simp: raise_def)

lemma collaborator_step:
  "collaborator r0 m = (r, m1) \<longleftrightarrow> m1 = m \<and> r = (case r0 of Inl msg \<Rightarrow> Inl (Raised msg) | Inr x \<Rightarrow> Inr x)"
  by (cases r0) (auto simp: collaborator_def)

lemma collaborator_Inr [simp]:
  "collaborator r0 m = (Inr x, m1) \<longleftrightarrow> m1 = m \<and> r0 = Inr x"
  by (cases r0) (auto simp: collaborator_def)

lemma disable_flag_step:
  "disable_flag flag msg m = (r, m1) \<longleftrightarrow>
     r = Inr (flag \<and> is_encoder_decoder m) \<and>
     m1 = (if flag \<and> \<not> is_encoder_decoder m then m\<lparr>events := events m @ [Log Warning msg]\<rparr> else m)"
  by (auto simp: disable_flag_def action_defs)

lemma unchanged_refl [simp]: "unchanged m m"
  by (simp add: unchanged_def)

lemma unchanged_events [simp]: "unchanged m (m\<lparr>events := evs\<rparr>)"
  by (simp add: unchanged_def)

lemma disable_flag_unchanged: "disable_flag flag msg m = (r, m1) \<Longrightarrow> unchanged m m1"
  by (auto simp: disable_flag_step)

lemma set_device_Inr:
  "set_device env d m = (Inr x, m1) \<Longrightarrow>
     priv_device m1 = Some d \<and> model m1 = model m \<and> is_encoder_decoder m1 = is_encoder_decoder m
     \<and> attribution_method m1 = attribution_method m
     \<and> priv_default_attributed_fn_id m1 = priv_default_attributed_fn_id m"
  by (auto simp: set_device_def action_defs split: option.splits if_splits)

lemma device_override_Inr:
  "(case dv of None \<Rightarrow> return_ok () | Some d \<Rightarrow> set_device env d) m = (Inr x, m1) \<Longrightarrow>
     priv_device m1 = (case dv of None \<Rightarrow> priv_device m | Some d \<Rightarrow> Some d)
     \<and> model m1 = model m \<and> is_encoder_decoder m1 = is_encoder_decoder m
     \<and> attribution_method m1 = attribution_method m
     \<and> priv_default_attributed_fn_id m1 = priv_default_attributed_fn_id m"
  by (cases dv) (auto dest: set_device_Inr)

lemma log_batches_unchanged: "log_batches texts bs m = (r, m1) \<Longrightarrow> unchanged m m1"
  by (auto simp: log_batches_def action_defs split: option.splits if_splits)

lemma format_input_texts_Inr:
  "format_input_texts t g = Inr (texts, targets) \<longleftrightarrow>
     texts = as_list t \<and> targets = map_option as_list g \<and>
     (\<forall>x. g = Some x \<longrightarrow> length (as_list x) = length (as_list t))"
  by (auto simp: format_input_texts_def Let_def split: option.splits)

lemma resolve_constrained:
  "resolve_generated_texts env a texts (Some s) False m =
     (Inr (s, generation_args a),
      if generation_args a \<noteq> []
      then m\<lparr>events := events m @ [Log Warning (Generation_args_ignored (generation_args a))]\<rparr>
      else m)"
  by (auto simp: resolve_generated_texts_def action_defs)

lemma resolve_unchanged:
  "resolve_generated_texts env a texts targets fp m = (r, m1) \<Longrightarrow> unchanged m m1"
  by (auto simp: resolve_generated_texts_def action_defs split: option.splits if_splits sum.splits)

lemma get_attribution_method_frame:
  "get_attribution_method env meth ov m = (r, m1) \<Longrightarrow>
     model m1 = model m \<and> is_encoder_decoder m1 = is_encoder_decoder m
     \<and> priv_device m1 = priv_device m
     \<and> priv_default_attributed_fn_id m1 = priv_default_attributed_fn_id m"
  by (cases "truthy_str meth")
     (auto simp: get_attribution_method_def action_defs split: option.splits if_splits sum.splits)

lemma notebook_step:
  "(if nb then and_then (emit ev) (\<lambda>_. return_ok False) else return_ok pp) m = (r, m1) \<longleftrightarrow>
     r = Inr (\<not> nb \<and> pp) \<and> m1 = (if nb then m\<lparr>events := events m @ [ev]\<rparr> else m)"
  by (auto simp: action_defs)

lemma and_then_InrE:
  assumes "and_then f g m = (Inr y, m')"
  obtains x m1 where "f m = (Inr x, m1)" "g x m1 = (Inr y, m')"
  using assms by (auto simp: and_then_Inr)

lemma disable_flag_Inr:
  "disable_flag flag msg m = (Inr r, m1) \<Longrightarrow> r = (flag \<and> is_encoder_decoder m) \<and> unchanged m m1"
  by (auto simp: disable_flag_step)

lemma notebook_unchanged:
  "(if nb then and_then (emit ev) (\<lambda>_. return_ok False) else return_ok pp) m = (r, m1) \<Longrightarrow> unchanged m m1"
  by (auto simp: notebook_step)

lemma guard_Inr:
  "(if \<not> c then raise e else return_ok ()) m = (Inr x, m1) \<Longrightarrow> c \<and> m1 = m"
  by (auto simp: guard_step split: if_splits)

lemma holds_set_device:
  assumes dev: "\<And>m. I m \<Longrightarrow> I (m\<lparr>priv_device := Some d\<rparr>)"
      and ev: "\<And>m. I m \<Longrightarrow> I (m\<lparr>events := events m @ [Model_to d]\<rparr>)"
      and err: "\<And>msg. E (Raised msg)"
  shows "holds I E (set_device env d)"
proof -
  have upd: "holds I E (\<lambda>m. (Inr (), m\<lparr>priv_device := Some d\<rparr>))"
    by (simp add: holds_def dev)
  show ?thesis
    unfolding set_device_def
    by (intro holds_intros holds_raise holds_emit upd err ev)
qed

lemma holds_get_attribution_method_frame:
  assumes am: "\<And>m x. I m \<Longrightarrow> I (m\<lparr>attribution_method := x\<rparr>)"
      and ev1: "\<And>m fa. I m \<Longrightarrow> I (m\<lparr>events := events m @ [Unhook fa]\<rparr>)"
      and ev2: "\<And>m n. I m \<Longrightarrow> I (m\<lparr>events := events m @ [Load n]\<rparr>)"
      and err: "\<And>msg. E (Raised msg)" "E MissingAttributionMethodError"
  shows "holds I E (get_attribution_method env meth ov)"
proof -
  have upd: "holds I E (\<lambda>m. (Inr (), m\<lparr>attribution_method := x\<rparr>))" for x
    by (simp add: holds_def am)
  show ?thesis
    unfolding get_attribution_method_def
    by (intro holds_intros holds_raise holds_emit holds_collaborator upd err ev1 ev2)
qed

lemma holds_resolve:
  assumes ev1: "\<And>m e g. I m \<Longrightarrow> I (m\<lparr>events := events m @ [Generate e g]\<rparr>)"
      and ev2: "\<And>m g. I m \<Longrightarrow> I (m\<lparr>events := events m @ [Log Warning (Generation_args_ignored g)]\<rparr>)"
      and err: "\<And>msg. E (Raised msg)"
  shows "holds I E (resolve_generated_texts env a texts targets fp)"
  unfolding resolve_generated_texts_def
  by (intro holds_intros holds_raise holds_emit holds_collaborator err ev1 ev2)

lemma holds_resolve_constrained:
  assumes ev2: "\<And>m g. I m \<Longrightarrow> I (m\<lparr>events := events m @ [Log Warning (Generation_args_ignored g)]\<rparr>)"
  shows "holds I E (resolve_generated_texts env a texts (Some s) False)"
  unfolding resolve_generated_texts_def
  by (auto intro!: holds_intros holds_emit ev2)

lemma holds_and_then_val:
  assumes "holds I E f"
      and "\<And>x m m1. I m \<Longrightarrow> f m = (Inr x, m1) \<Longrightarrow> V x"
      and "\<And>x. V x \<Longrightarrow> holds I E (g x)"
  shows "holds I E (and_then f g)"
  unfolding holds_def
proof (intro allI impI)
  fix m assume I: "I m"
  obtain r m1 where fm: "f m = (r, m1)" by (cases "f m")
  from holdsD [OF assms(1) I fm] have I1: "I m1" and E: "\<And>e. r = Inl e \<Longrightarrow> E e" by auto
  show "I (snd (and_then f g m)) \<and> (\<forall>e. fst (and_then f g m) = Inl e \<longrightarrow> E e)"
  proof (cases r)
    case (Inl e)
    with fm I1 E show ?thesis by (simp add: and_then_def)
  next
    case (Inr x)
    with fm I have "V x" using assms(2) by blast
    then have "holds I E (g x)" by (rule assms(3))
    with I1 have "I (snd (g x m1)) \<and> (\<forall>e. fst (g x m1) = Inl e \<longrightarrow> E e)"
      by (simp add: holds_def)
    with fm Inr show ?thesis by (simp add: and_then_def)
  qed
qed

lemma holds_log_batches:
  assumes ev: "\<And>m n b. I m \<Longrightarrow> I (m\<lparr>events := events m @ [Log Info (Splitting_into_batches n b)]\<rparr>)"
      and err: "E ZeroDivisionError"
  shows "holds I E (log_batches texts bs)"
  unfolding log_batches_def
  by (intro holds_intros holds_raise holds_emit err ev)

lemma holds_prepare:
  assumes enc: "\<And>m. I m \<Longrightarrow> is_encoder_decoder m = b"
      and ev: "\<And>m l msg. I m \<Longrightarrow> I (m\<lparr>events := events m @ [Log l msg]\<rparr>)"
      and evd: "\<And>m d. I m \<Longrightarrow> I (m\<lparr>events := events m @ [Model_to d]\<rparr>)"
      and dev: "\<And>m d. I m \<Longrightarrow> I (m\<lparr>priv_device := Some d\<rparr>)"
      and res: "\<And>texts. holds I E (resolve_generated_texts env a texts
                   (map_option as_list (generated_texts a)) (generate_from_target_prefix a \<and> b))"
      and gam: "holds I E (get_attribution_method env (method_arg a) (override_default_attribution a))"
      and err: "\<And>e. e \<noteq> MissingAttributionMethodError \<Longrightarrow> E e"
  shows "holds I E (attribute_prepare env a)"
proof -
  have fn: "holds I E (\<lambda>m. (get_attributed_fn env m (attributed_fn a), m))"
    by (auto simp: holds_def get_attributed_fn_def Let_def err
             split: option.splits attributed_fn_arg.splits)
  have flag: "holds I E (disable_flag flag msg)" for flag msg
    unfolding disable_flag_def by (intro holds_intros holds_emit ev)
  have flagv: "I m \<Longrightarrow> disable_flag flag msg m = (Inr x, m1) \<Longrightarrow> x = (flag \<and> b)" for flag msg m x m1
    by (auto dest!: disable_flag_Inr simp: enc)
  have fmt: "format_input_texts (input_texts a) (generated_texts a) = Inl e \<Longrightarrow> E e" for e
    by (auto simp: format_input_texts_def Let_def err split: option.splits if_splits)
  show ?thesis
    unfolding attribute_prepare_def
    apply (rule holds_and_then)
     apply (intro holds_intros holds_raise err; simp)
    apply (rule holds_and_then [OF flag])
    apply (rule holds_and_then_val [OF flag, where V = "\<lambda>x. x = (generate_from_target_prefix a \<and> b)"])
     apply (erule (1) flagv)
    apply (rule holds_and_then [OF holds_read])
    apply (rule holds_and_then)
     apply (intro holds_intros holds_set_device dev evd err; simp)
    apply (rule holds_and_then_val [OF holds_lift, where V = "\<lambda>x. snd x = map_option as_list (generated_texts a)"])
      apply (erule fmt)
     apply (clarsimp simp: format_input_texts_Inr)
    apply (simp only: split_paired_all prod.case snd_conv)
    apply hypsubst
    apply (rule holds_and_then)
     apply (intro holds_log_batches ev err; simp)
    apply (rule holds_and_then [OF res])
    apply (rule holds_case_prod)
    apply (rule holds_and_then)
     apply (rule holds_emit, erule ev)
    apply (rule holds_and_then [OF gam])
    apply (rule holds_and_then [OF fn])
    apply (rule holds_and_then)
     apply (intro holds_collaborator err; simp)
    apply (intro holds_intros holds_emit ev; assumption?)
    done
qed

lemma holds_effective_batch_size:
  assumes ev: "\<And>m l msg. I m \<Longrightarrow> I (m\<lparr>events := events m @ [Log l msg]\<rparr>)"
      and err: "\<And>e. e \<noteq> MissingAttributionMethodError \<Longrightarrow> E e"
  shows "holds I E (effective_batch_size a p)"
proof -
  have chk: "all_startswith ts gs = Inl e \<Longrightarrow> E e" for ts gs e
    by (induction ts gs rule: all_startswith.induct) (auto simp: err split: if_splits)
  show ?thesis
    unfolding effective_batch_size_def decoder_only_batch_size_def
    by (intro holds_intros holds_raise holds_emit holds_lift ev err chk; simp)
qed

lemma holds_run:
  assumes ev: "\<And>m l msg. I m \<Longrightarrow> I (m\<lparr>events := events m @ [Log l msg]\<rparr>)"
      and evd: "\<And>m d. I m \<Longrightarrow> I (m\<lparr>events := events m @ [Model_to d]\<rparr>)"
      and evp: "\<And>m fa pa. I m \<Longrightarrow> I (m\<lparr>events := events m @ [Prepare_and_attribute fa pa]\<rparr>)"
      and dev: "\<And>m d. I m \<Longrightarrow> I (m\<lparr>priv_device := Some d\<rparr>)"
      and err: "\<And>e. e \<noteq> MissingAttributionMethodError \<Longrightarrow> E e"
  shows "holds I E (attribute_run env a p)"
  unfolding attribute_run_def
  by (intro holds_intros holds_effective_batch_size holds_emit holds_collaborator holds_set_device
        ev evd evp dev err; simp)

lemma holds_attribute:
  assumes enc: "\<And>m. I m \<Longrightarrow> is_encoder_decoder m = b"
      and ev: "\<And>m l msg. I m \<Longrightarrow> I (m\<lparr>events := events m @ [Log l msg]\<rparr>)"
      and evd: "\<And>m d. I m \<Longrightarrow> I (m\<lparr>events := events m @ [Model_to d]\<rparr>)"
      and evp: "\<And>m fa pa. I m \<Longrightarrow> I (m\<lparr>events := events m @ [Prepare_and_attribute fa pa]\<rparr>)"
      and dev: "\<And>m d. I m \<Longrightarrow> I (m\<lparr>priv_device := Some d\<rparr>)"
      and res: "\<And>texts. holds I E (resolve_generated_texts env a texts
                   (map_option as_list (generated_texts a)) (generate_from_target_prefix a \<and> b))"
      and gam: "holds I E (get_attribution_method env (method_arg a) (override_default_attribution a))"
      and err: "\<And>e. e \<noteq> MissingAttributionMethodError \<Longrightarrow> E e"
  shows "holds I E (attribute env a)"
  unfolding attribute_def
  by (intro holds_and_then holds_prepare [where b = b] holds_run enc ev evd evp dev res gam err)

lemma prepare_events:
  assumes "attribute_prepare env a m = (r, m1)"
  shows "is_encoder_decoder m1 = is_encoder_decoder m \<and> model m1 = model m
     \<and> (\<exists>new. events m1 = events m @ new \<and> (\<forall>e\<in>set new. \<forall>fa pa. e \<noteq> Prepare_and_attribute fa pa))"
proof -
  let ?I = "\<lambda>m'. is_encoder_decoder m' = is_encoder_decoder m \<and> model m' = model m
     \<and> (\<exists>new. events m' = events m @ new \<and> (\<forall>e\<in>set new. \<forall>fa pa. e \<noteq> Prepare_and_attribute fa pa))"
  have "holds ?I (\<lambda>_. True) (attribute_prepare env a)"
    by (rule holds_prepare [where b = "is_encoder_decoder m"])
       (auto intro!: holds_resolve holds_get_attribution_method_frame)
  from holdsD [OF this _ assms] show ?thesis by simp
qed

lemma all_startswith_True:
  "all_startswith ts gs = Inr True \<longleftrightarrow>
     length ts \<le> length gs \<and> (\<forall>i<length ts. prefix (ts ! i) (gs ! i))"
proof (induction ts gs rule: all_startswith.induct)
  case (3 t ts g gs)
  then show ?case by (auto simp: less_Suc_eq_0_disj)
qed simp_all

lemma all_startswith_False:
  "length ts \<le> length gs \<Longrightarrow>
     all_startswith ts gs = Inr False \<longleftrightarrow> (\<exists>i<length ts. \<not> prefix (ts ! i) (gs ! i))"
proof (induction ts gs rule: all_startswith.induct)
  case (3 t ts g gs)
  then show ?case by (auto simp: less_Suc_eq_0_disj)
qed simp_all

lemma effective_batch_size_result:
  assumes "effective_batch_size a p m = (r, m2)"
  shows "model m2 = model m \<and> is_encoder_decoder m2 = is_encoder_decoder m
       \<and> priv_device m2 = priv_device m \<and> attribution_method m2 = attribution_method m
       \<and> (\<exists>logs. events m2 = events m @ logs \<and> (\<forall>e\<in>set logs. \<exists>l msg. e = Log l msg))
       \<and> (\<forall>bs. r = Inr bs \<longrightarrow>
            (is_encoder_decoder m \<or> all_startswith (p_input_texts p) (p_generated_texts p) = Inr True)
          \<and> bs = (if (\<not> is_encoder_decoder m \<and> p_has_generated_texts p \<and> length (p_input_texts p) > 1)
                     \<or> (\<not> is_encoder_decoder m \<and> length (p_input_texts p) > 1
                          \<and> (attr_pos_start a \<noteq> None \<or> attr_pos_end a \<noteq> None))
                     \<or> method_name (p_attribution_method p) = ''lime''
                   then Some 1 else batch_size a))
       \<and> (\<forall>e. r = Inl e \<longrightarrow> \<not> is_encoder_decoder m
            \<and> (all_startswith (p_input_texts p) (p_generated_texts p) = Inl e
                \<or> all_startswith (p_input_texts p) (p_generated_texts p) = Inr False
                   \<and> e = AssertionError forced_generation_message))"
  using assms
  by (cases "all_startswith (p_input_texts p) (p_generated_texts p)")
     (auto simp: effective_batch_size_def decoder_only_batch_size_def action_defs split: if_splits)

lemma effective_batch_size_passes:
  assumes "is_encoder_decoder m \<or> all_startswith (p_input_texts p) (p_generated_texts p) = Inr True"
  shows "\<exists>bs m2. effective_batch_size a p m = (Inr bs, m2)"
  using assms
  by (auto simp: effective_batch_size_def decoder_only_batch_size_def action_defs)

lemma set_device_events:
  "set_device env d m = (r, m1) \<Longrightarrow>
     model m1 = model m \<and> is_encoder_decoder m1 = is_encoder_decoder m
     \<and> attribution_method m1 = attribution_method m
     \<and> (\<exists>new. events m1 = events m @ new \<and> (\<forall>e\<in>set new. \<exists>d. e = Model_to d))"
  by (auto simp: set_device_def action_defs split: option.splits if_splits)

lemma run_after_batch_size:
  assumes "(and_then (emit (Prepare_and_attribute fa pa)) (\<lambda>_.
            and_then (collaborator c1) (\<lambda>attribution_outputs.
            and_then (collaborator (c2 attribution_outputs)) (\<lambda>merged.
            and_then (if cond then (case od of Some d \<Rightarrow> set_device env d | None \<Rightarrow> return_ok ())
                      else return_ok ()) (\<lambda>_.
            return_ok (fin merged)))))) m2 = (r, m')"
  shows "\<exists>post. events m' = events m2 @ [Prepare_and_attribute fa pa] @ post
           \<and> (\<forall>e\<in>set post. \<exists>d. e = Model_to d)"
  using assms
  apply (elim and_then_cases)
  apply (auto simp: collaborator_step split: if_splits option.splits dest!: set_device_events)
  done

lemma run_events:
  assumes "attribute_run env a p m1 = (r, m')"
  shows "\<exists>new. events m' = events m1 @ new
     \<and> (\<forall>e\<in>set new. (\<exists>l msg. e = Log l msg) \<or> (\<exists>d. e = Model_to d)
           \<or> ((is_encoder_decoder m1 \<or> all_startswith (p_input_texts p) (p_generated_texts p) = Inr True)
              \<and> e = Prepare_and_attribute (p_attribution_method p) (dispatch_arguments a p
                 (if (\<not> is_encoder_decoder m1 \<and> p_has_generated_texts p \<and> length (p_input_texts p) > 1)
                     \<or> (\<not> is_encoder_decoder m1 \<and> length (p_input_texts p) > 1
                          \<and> (attr_pos_start a \<noteq> None \<or> attr_pos_end a \<noteq> None))
                     \<or> method_name (p_attribution_method p) = ''lime''
                   then Some 1 else batch_size a))))"
proof -
  define f where "f = (if (\<not> is_encoder_decoder m1 \<and> p_has_generated_texts p \<and> length (p_input_texts p) > 1)
                     \<or> (\<not> is_encoder_decoder m1 \<and> length (p_input_texts p) > 1
                          \<and> (attr_pos_start a \<noteq> None \<or> attr_pos_end a \<noteq> None))
                     \<or> method_name (p_attribution_method p) = ''lime''
                   then Some 1 else batch_size a)"
  define ok where "ok \<longleftrightarrow> is_encoder_decoder m1 \<or> all_startswith (p_input_texts p) (p_generated_texts p) = Inr True"
  have "\<exists>new. events m' = events m1 @ new
     \<and> (\<forall>e\<in>set new. (\<exists>l msg. e = Log l msg) \<or> (\<exists>d. e = Model_to d)
           \<or> (ok \<and> e = Prepare_and_attribute (p_attribution_method p) (dispatch_arguments a p f)))"
    using assms unfolding attribute_run_def
  proof (cases rule: and_then_cases)
    case (fails e)
    from effective_batch_size_result [OF fails(1)] show ?thesis by blast
  next
    case (continues bs m2)
    from effective_batch_size_result [OF continues(1)]
    obtain logs where logs: "events m2 = events m1 @ logs" "\<forall>e\<in>set logs. \<exists>l msg. e = Log l msg"
      and bs: "ok" "bs = f"
      unfolding f_def ok_def by blast
    from run_after_batch_size [OF continues(2)]
    obtain post where post: "events m' = events m2 @ [Prepare_and_attribute (p_attribution_method p)
          (dispatch_arguments a p bs)] @ post" "\<forall>e\<in>set post. \<exists>d. e = Model_to d"
      by blast
    have "events m' = events m1 @ (logs @ [Prepare_and_attribute (p_attribution_method p)
          (dispatch_arguments a p f)] @ post)"
      using logs post bs by simp
    moreover have "\<forall>e\<in>set (logs @ [Prepare_and_attribute (p_attribution_method p)
          (dispatch_arguments a p f)] @ post). (\<exists>l msg. e = Log l msg) \<or> (\<exists>d. e = Model_to d)
           \<or> (ok \<and> e = Prepare_and_attribute (p_attribution_method p) (dispatch_arguments a p f))"
      using logs(2) post(2) bs(1) by auto
    ultimately show ?thesis by blast
  qed
  then show ?thesis unfolding f_def ok_def .
qed

lemma run_dispatches:
  assumes "is_encoder_decoder m1 \<or> all_startswith (p_input_texts p) (p_generated_texts p) = Inr True"
  shows "\<exists>bs. Prepare_and_attribute (p_attribution_method p) (dispatch_arguments a p bs)
           \<in> set (emitted m1 (snd (attribute_run env a p m1)))"
proof -
  from effective_batch_size_passes [OF assms]
  obtain bs m2 where ebs: "effective_batch_size a p m1 = (Inr bs, m2)" by blast
  from effective_batch_size_result [OF ebs]
  obtain logs where logs: "events m2 = events m1 @ logs" by blast
  obtain r m' where run: "attribute_run env a p m1 = (r, m')" by (cases "attribute_run env a p m1")
  from run [unfolded attribute_run_def]
  obtain post where "events m' = events m2 @ [Prepare_and_attribute (p_attribution_method p)
          (dispatch_arguments a p bs)] @ post"
  proof (cases rule: and_then_cases)
    case (fails e)
    with ebs show ?thesis by simp
  next
    case (continues x m1')
    with ebs have "x = bs" "m1' = m2" by simp_all
    with run_after_batch_size [OF continues(2)] that show ?thesis by blast
  qed
  with logs have "emitted m1 m' = logs @ [Prepare_and_attribute (p_attribution_method p)
          (dispatch_arguments a p bs)] @ post"
    by (simp add: emitted_def)
  with run show ?thesis by auto
qed

lemma run_assertion:
  assumes "\<not> is_encoder_decoder m1"
      and "all_startswith (p_input_texts p) (p_generated_texts p) = Inr False"
  shows "attribute_run env a p m1 = (Inl (AssertionError forced_generation_message), m1)"
  using assms
  by (simp add: attribute_run_def effective_batch_size_def decoder_only_batch_size_def action_defs)

lemma run_Inr:
  assumes "attribute_run env a p m1 = (Inr out, m')"
  shows "(\<exists>merged. out = attach_info p merged)
     \<and> (truthy_str (device_arg a) \<and> truthy_str (p_original_device p) \<longrightarrow> priv_device m' = p_original_device p)"
  using assms unfolding attribute_run_def
  apply (elim and_then_InrE)
  apply (auto split: if_splits option.splits dest!: set_device_Inr)
  done

lemma grown_refl [simp]: "grown m m"
  by (simp add: grown_def)


lemma grown_emitted_mono: "grown m m1 \<Longrightarrow> grown m1 m2 \<Longrightarrow> set (emitted m m1) \<subseteq> set (emitted m m2)"
  by (auto simp: grown_def emitted_def)

lemma disable_flag_grown: "disable_flag flag msg m = (r, m1) \<Longrightarrow> grown m m1"
  by (auto simp: disable_flag_step grown_def)

lemma set_device_grown: "set_device env d m = (r, m1) \<Longrightarrow> grown m m1"
  by (auto simp: grown_def dest: set_device_events)

lemma device_override_grown:
  "(case dv of None \<Rightarrow> return_ok () | Some d \<Rightarrow> set_device env d) m = (r, m1) \<Longrightarrow> grown m m1"
  by (cases dv) (auto dest: set_device_grown)

lemma log_batches_grown: "log_batches texts bs m = (r, m1) \<Longrightarrow> grown m m1"
  by (auto simp: log_batches_def action_defs grown_def split: option.splits if_splits)

lemma resolve_grown: "resolve_generated_texts env a texts targets fp m = (r, m1) \<Longrightarrow> grown m m1"
  by (auto simp: resolve_generated_texts_def action_defs grown_def
           split: option.splits if_splits sum.splits)

lemma get_attribution_method_grown:
  "get_attribution_method env meth ov m = (r, m1) \<Longrightarrow> grown m m1"
  by (cases "truthy_str meth")
     (auto simp: get_attribution_method_def action_defs grown_def
           split: option.splits if_splits sum.splits)

lemma notebook_grown:
  "(if nb then and_then (emit ev) (\<lambda>_. return_ok False) else return_ok pp) m = (r, m1) \<Longrightarrow> grown m m1"
  by (auto simp: notebook_step grown_def)

lemma run_grown: "attribute_run env a p m1 = (r, m') \<Longrightarrow> grown m1 m'"
  using run_events [of env a p m1 r m'] by (auto simp: grown_def)

lemma get_attributed_fn_cong:
  "priv_default_attributed_fn_id m1 = priv_default_attributed_fn_id m
     \<Longrightarrow> get_attributed_fn env m1 x = get_attributed_fn env m x"
  by (cases x) (simp_all add: get_attributed_fn_def default_attributed_fn_id_def Let_def)

lemma get_attributed_fn_fst:
  "get_attributed_fn env mk x = r \<Longrightarrow> priv_default_attributed_fn_id mk = priv_default_attributed_fn_id m
     \<Longrightarrow> get_attributed_fn env m x = r"
  using get_attributed_fn_cong [of mk m env x] by simp

lemma resolve_Some_Inr:
  "resolve_generated_texts env a texts (Some s) fp m = (Inr (gs, ga), m1) \<Longrightarrow> \<not> fp \<Longrightarrow>
     gs = s \<and> ga = generation_args a
     \<and> events m1 = events m @ (if generation_args a \<noteq> []
                               then [Log Warning (Generation_args_ignored (generation_args a))] else [])"
  by (auto simp: resolve_constrained)

lemma get_attribution_method_fst:
  "get_attribution_method env meth ov mk = (r, mk') \<Longrightarrow> attribution_method mk = attribution_method m
     \<Longrightarrow> fst (get_attribution_method env meth ov m) = r"
  by (cases "truthy_str meth")
     (auto simp: get_attribution_method_def action_defs split: option.splits if_splits sum.splits)

lemma grown_emit [simp]: "grown m (m\<lparr>events := events m @ evs\<rparr>)"
  by (simp add: grown_def)

lemma prepare_Inr:
  assumes "attribute_prepare env a m = (Inr p, m1)"
  shows "truthy_text_input (input_texts a)
   \<and> p_original_device p = priv_device m
   \<and> p_attribute_target p = (attribute_target a \<and> is_encoder_decoder m)
   \<and> p_generate_from_target_prefix p = (generate_from_target_prefix a \<and> is_encoder_decoder m)
   \<and> p_input_texts p = as_list (input_texts a)
   \<and> p_has_generated_texts p = (generated_texts a \<noteq> None)
   \<and> (\<forall>g. generated_texts a = Some g \<longrightarrow> length (as_list g) = length (as_list (input_texts a)))
   \<and> (\<forall>g. generated_texts a = Some g \<and> \<not> (generate_from_target_prefix a \<and> is_encoder_decoder m) \<longrightarrow>
         p_generated_texts p = as_list g \<and> p_generation_args p = generation_args a
         \<and> (generation_args a \<noteq> [] \<longrightarrow>
              Log Warning (Generation_args_ignored (generation_args a)) \<in> set (emitted m m1)))
   \<and> get_attributed_fn env m (attributed_fn a) = Inr (p_attributed_fn p)
   \<and> fst (get_attribution_method env (method_arg a) (override_default_attribution a) m)
        = Inr (p_attribution_method p)
   \<and> priv_device m1 = (case device_arg a of None \<Rightarrow> priv_device m | Some d \<Rightarrow> Some d)
   \<and> grown m m1"
  using assms
  unfolding attribute_prepare_def
  apply (elim and_then_InrE)
  apply (simp only: split_paired_all prod.case)
  apply (elim and_then_InrE)
  apply (simp only: split_paired_all prod.case)
  apply (elim and_then_InrE)
  apply (simp only: split_paired_all prod.case)
  apply (elim and_then_InrE)
  apply (drule guard_Inr)
  apply (frule disable_flag_grown, drule disable_flag_Inr)
  apply (frule disable_flag_grown, drule disable_flag_Inr)
  apply (frule device_override_grown, drule device_override_Inr)
  apply (frule log_batches_grown, drule log_batches_unchanged)
  apply (frule resolve_grown, frule resolve_unchanged)
  apply (frule get_attribution_method_grown, frule get_attribution_method_frame)
  apply (frule notebook_grown, drule notebook_unchanged)
  apply (intro conjI allI impI)
  subgoal by simp
  subgoal by (clarsimp simp: unchanged_def device_def)
  subgoal by (clarsimp simp: unchanged_def)
  subgoal by (clarsimp simp: unchanged_def)
  subgoal by (clarsimp simp: format_input_texts_Inr)
  subgoal by (clarsimp simp: format_input_texts_Inr)
  subgoal by (clarsimp simp: format_input_texts_Inr)
  subgoal by (clarsimp simp: format_input_texts_Inr, drule resolve_Some_Inr) (auto simp: unchanged_def)
  subgoal by (clarsimp simp: format_input_texts_Inr, drule resolve_Some_Inr) (auto simp: unchanged_def)
  subgoal
    apply (clarsimp simp: format_input_texts_Inr)
    apply (drule resolve_Some_Inr)
     apply (simp add: unchanged_def)
    apply (clarsimp simp: grown_def emitted_def)
    done
  subgoal by (clarsimp, erule get_attributed_fn_fst) (simp add: unchanged_def)
  subgoal by (clarsimp, erule get_attribution_method_fst) (simp add: unchanged_def)
  subgoal by (cases "device_arg a") (clarsimp simp: unchanged_def)+
  subgoal by (clarsimp simp: grown_def)
  done

lemma attribute_InrE:
  assumes "attribute env a m = (Inr out, m')"
  obtains p m1 where "attribute_prepare env a m = (Inr p, m1)" "attribute_run env a p m1 = (Inr out, m')"
  using assms unfolding attribute_def by (rule and_then_InrE)

lemma attribute_isl_prepare:
  assumes "\<And>p m1. attribute_prepare env a m \<noteq> (Inr p, m1)"
  shows "isl (fst (attribute env a m))"
proof (cases "attribute env a m")
  case (Pair r m')
  show ?thesis
  proof (cases r)
    case (Inl e)
    with Pair show ?thesis by simp
  next
    case (Inr out)
    with Pair assms show ?thesis by (auto elim: attribute_InrE)
  qed
qed

lemma get_attribution_method_named:
  assumes "meth = Some name" "name \<noteq> []"
  shows "get_attribution_method env meth ov m =
     (case load env name of Inl msg \<Rightarrow> Inl (Raised msg) | Inr fa \<Rightarrow> Inr fa,
      m\<lparr>attribution_method :=
           (case load env name of
              Inl msg \<Rightarrow> attribution_method m
            | Inr fa \<Rightarrow> if ov \<or> attribution_method m = None then Some fa else attribution_method m),
        events := events m @ (case attribution_method m of None \<Rightarrow> [] | Some bound \<Rightarrow> [Unhook bound])
                    @ [Load name]\<rparr>)"
  using assms
  by (cases "load env name"; cases "attribution_method m")
     (auto simp: get_attribution_method_def action_defs)

lemma get_attribution_method_unnamed:
  assumes "\<not> truthy_str meth"
  shows "get_attribution_method env meth ov m =
     (case attribution_method m of None \<Rightarrow> Inl MissingAttributionMethodError | Some fa \<Rightarrow> Inr fa, m)"
  using assms
  by (cases "attribution_method m") (auto simp: get_attribution_method_def action_defs)

lemma truthy_str_cases:
  obtains (unnamed) "\<not> truthy_str meth" | (named) name where "meth = Some name" "name \<noteq> []"
  by (cases meth) auto

lemma holds_get_attribution_method_bound:
  shows "holds (\<lambda>m. is_encoder_decoder m = b \<and> (truthy_str meth \<or> attribution_method m \<noteq> None))
           (\<lambda>e. e \<noteq> MissingAttributionMethodError)
           (get_attribution_method env meth ov)"
proof (cases meth rule: truthy_str_cases)
  case unnamed
  then show ?thesis
    by (auto simp: holds_def get_attribution_method_unnamed split: option.splits)
next
  case (named name)
  then show ?thesis
    by (auto simp: holds_def get_attribution_method_named split: sum.splits)
qed

lemma holds_get_attribution_method_one_off:
  assumes "truthy_str meth" "\<not> ov"
  shows "holds (\<lambda>m. is_encoder_decoder m = b \<and> attribution_method m = Some bound) (\<lambda>_. True)
           (get_attribution_method env meth ov)"
proof (cases meth rule: truthy_str_cases)
  case unnamed
  with assms show ?thesis by simp
next
  case (named name)
  with assms show ?thesis
    by (auto simp: holds_def get_attribution_method_named split: sum.splits)
qed



lemma and_then_raise: "and_then (raise e) g m = (Inl e, m)"
  by (simp add: action_defs)


lemma and_then_Inl_apply: "f m = (Inl e, m1) \<Longrightarrow> and_then f g m = (Inl e, m1)"
  by (simp add: and_then_def)

lemma and_then_Inr_apply: "f m = (Inr x, m1) \<Longrightarrow> and_then f g m = g x m1"
  by (simp add: and_then_def)





lemma attribute_empty:
  assumes "\<not> truthy_text_input (input_texts a)"
  shows "attribute env a m
     = (Inl (ValueError ''At least one text must be provided to perform attribution.''), m)"
proof -
  from assms have "attribute_prepare env a m
     = (Inl (ValueError ''At least one text must be provided to perform attribution.''), m)"
    by (simp add: attribute_prepare_def and_then_raise)
  then show ?thesis
    unfolding attribute_def by (rule and_then_Inl_apply)
qed

lemma and_then_fst_Inl:
  assumes "\<And>e' m1. f m = (Inl e', m1) \<Longrightarrow> e' = e"
      and "\<And>x m1. f m = (Inr x, m1) \<Longrightarrow> fst (g x m1) = Inl e"
  shows "fst (and_then f g m) = Inl e"
  using assms by (auto simp: and_then_def split: prod.splits sum.splits)

lemma set_device_Inl:
  "set_device env d m = (Inl e, m1) \<Longrightarrow> check_device env d \<noteq> None \<or> (model m \<and> model_to env d \<noteq> None)"
  by (auto simp: set_device_def action_defs split: option.splits if_splits)

lemma prepare_mismatch:
  assumes nonempty: "truthy_text_input (input_texts a)"
      and gen: "generated_texts a = Some g"
      and len: "length (as_list g) \<noteq> length (as_list (input_texts a))"
      and dev: "\<And>d. device_arg a = Some d \<Longrightarrow> check_device env d = None \<and> (model m \<longrightarrow> model_to env d = None)"
  shows "fst (attribute_prepare env a m) = Inl LengthMismatchError"
proof -
  have fmt: "format_input_texts (input_texts a) (generated_texts a) = Inl LengthMismatchError"
    using gen len by (simp add: format_input_texts_def)
  show ?thesis
    unfolding attribute_prepare_def
    apply (rule and_then_fst_Inl)
     apply (simp add: guard_step nonempty)
    apply (drule guard_Inr)
    apply (rule and_then_fst_Inl)
     apply (simp add: disable_flag_step)
    apply (drule disable_flag_unchanged)
    apply (rule and_then_fst_Inl)
     apply (simp add: disable_flag_step)
    apply (drule disable_flag_unchanged)
    apply (rule and_then_fst_Inl)
     apply simp
    apply (rule and_then_fst_Inl)
     apply (cases "device_arg a")
      apply simp
     apply (clarsimp simp: unchanged_def)
     apply (drule set_device_Inl)
     apply (frule dev)
     apply simp
    apply (rule and_then_fst_Inl)
     apply (simp add: fmt)
    apply (simp add: fmt)
    done
qed

lemma emitted_grown_split:
  assumes "grown m m1" "grown m1 m2"
  shows "emitted m m2 = emitted m m1 @ emitted m1 m2"
  using assms by (auto simp: grown_def emitted_def)

lemma run_Inr_check:
  assumes "attribute_run env a p m1 = (Inr out, m')"
  shows "is_encoder_decoder m1 \<or> all_startswith (p_input_texts p) (p_generated_texts p) = Inr True"
  using assms unfolding attribute_run_def
  by (elim and_then_InrE) (auto dest!: effective_batch_size_result)

lemma attribute_dispatch_events:
  assumes "Prepare_and_attribute fa pa \<in> set (emitted m (snd (attribute env a m)))"
  obtains p m1 where "attribute_prepare env a m = (Inr p, m1)"
    "fa = p_attribution_method p"
    "pa = dispatch_arguments a p
            (if (\<not> is_encoder_decoder m \<and> p_has_generated_texts p \<and> length (p_input_texts p) > 1)
                 \<or> (\<not> is_encoder_decoder m \<and> length (p_input_texts p) > 1
                      \<and> (attr_pos_start a \<noteq> None \<or> attr_pos_end a \<noteq> None))
                 \<or> method_name (p_attribution_method p) = ''lime''
             then Some 1 else batch_size a)"
    "is_encoder_decoder m \<or> all_startswith (p_input_texts p) (p_generated_texts p) = Inr True"
proof -
  obtain r1 m1 where prep: "attribute_prepare env a m = (r1, m1)"
    by (cases "attribute_prepare env a m")
  from prepare_events [OF prep]
  obtain new0 where enc: "is_encoder_decoder m1 = is_encoder_decoder m"
    and new0: "events m1 = events m @ new0" "\<forall>e\<in>set new0. \<forall>fa pa. e \<noteq> Prepare_and_attribute fa pa"
    by blast
  show ?thesis
  proof (cases r1)
    case (Inl e)
    with prep have "attribute env a m = (Inl e, m1)"
      unfolding attribute_def by (simp add: and_then_Inl_apply)
    with assms new0 show ?thesis by (auto simp: emitted_def)
  next
    case (Inr p)
    obtain r m' where run: "attribute_run env a p m1 = (r, m')"
      by (cases "attribute_run env a p m1")
    with prep Inr have att: "attribute env a m = (r, m')"
      unfolding attribute_def by (simp add: and_then_Inr_apply)
    from run_events [OF run] obtain new1 where new1: "events m' = events m1 @ new1"
      "\<forall>e\<in>set new1. (\<exists>l msg. e = Log l msg) \<or> (\<exists>d. e = Model_to d)
           \<or> ((is_encoder_decoder m1 \<or> all_startswith (p_input_texts p) (p_generated_texts p) = Inr True)
              \<and> e = Prepare_and_attribute (p_attribution_method p) (dispatch_arguments a p
                 (if (\<not> is_encoder_decoder m1 \<and> p_has_generated_texts p \<and> length (p_input_texts p) > 1)
                     \<or> (\<not> is_encoder_decoder m1 \<and> length (p_input_texts p) > 1
                          \<and> (attr_pos_start a \<noteq> None \<or> attr_pos_end a \<noteq> None))
                     \<or> method_name (p_attribution_method p) = ''lime''
                   then Some 1 else batch_size a)))"
      by blast
    from att new0 new1 have "emitted m (snd (attribute env a m)) = new0 @ new1"
      by (simp add: emitted_def)
    with assms new0(2) have "Prepare_and_attribute fa pa \<in> set new1" by auto
    with new1(2) have "(is_encoder_decoder m1 \<or> all_startswith (p_input_texts p) (p_generated_texts p) = Inr True)
              \<and> Prepare_and_attribute fa pa = Prepare_and_attribute (p_attribution_method p) (dispatch_arguments a p
                 (if (\<not> is_encoder_decoder m1 \<and> p_has_generated_texts p \<and> length (p_input_texts p) > 1)
                     \<or> (\<not> is_encoder_decoder m1 \<and> length (p_input_texts p) > 1
                          \<and> (attr_pos_start a \<noteq> None \<or> attr_pos_end a \<noteq> None))
                     \<or> method_name (p_attribution_method p) = ''lime''
                   then Some 1 else batch_size a))"
      by blast
    with prep Inr enc that show ?thesis by simp
  qed
qed

lemma attribute_dispatches:
  assumes prep: "attribute_prepare env a m = (Inr p, m1)"
      and ok: "is_encoder_decoder m \<or> all_startswith (p_input_texts p) (p_generated_texts p) = Inr True"
  shows "\<exists>bs. Prepare_and_attribute (p_attribution_method p) (dispatch_arguments a p bs)
           \<in> set (emitted m (snd (attribute env a m)))"
proof -
  from prepare_events [OF prep] have enc: "is_encoder_decoder m1 = is_encoder_decoder m" by blast
  from prepare_Inr [OF prep] have g0: "grown m m1" by blast
  obtain r m' where run: "attribute_run env a p m1 = (r, m')"
    by (cases "attribute_run env a p m1")
  with prep have att: "attribute env a m = (r, m')"
    unfolding attribute_def by (simp add: and_then_Inr_apply)
  from run_grown [OF run] have g1: "grown m1 m'" .
  from run_dispatches [of m1 p a env] ok enc run
  obtain bs where "Prepare_and_attribute (p_attribution_method p) (dispatch_arguments a p bs)
           \<in> set (emitted m1 m')" by auto
  with emitted_grown_split [OF g0 g1] att show ?thesis by auto
qed

lemma attribute_prepare_Inl:
  "attribute_prepare env a m = (Inl e, m1) \<Longrightarrow> attribute env a m = (Inl e, m1)"
  unfolding attribute_def by (rule and_then_Inl_apply)

lemma attribute_prepare_Inr:
  "attribute_prepare env a m = (Inr p, m1) \<Longrightarrow> attribute env a m = attribute_run env a p m1"
  unfolding attribute_def by (rule and_then_Inr_apply)



section \<open>Evaluation in the concrete setting\<close>

lemmas run_defs = attribute_def attribute_prepare_def attribute_run_def disable_flag_def
  log_batches_def resolve_generated_texts_def format_input_texts_def get_attribution_method_def
  get_attributed_fn_def set_device_def effective_batch_size_def decoder_only_batch_size_def
  dispatch_arguments_def attach_info_def device_def default_attributed_fn_id_def
  forced_generation_message_def emitted_def action_defs

lemmas example_defs = example_backend_def example_model_def example_args_def

section \<open>The claims\<close>

subsection \<open>Resolving the attributed function\<close>

text \<open>
  Claim C7. A string \<^verbatim>\<open>attributed_fn\<close> that is not a key of the step-function
  registry makes \<^verbatim>\<open>get_attributed_fn\<close> raise a \<^verbatim>\<open>ValueError\<close> whose text names
  the key, and a call of \<^verbatim>\<open>attribute\<close> with it returns no result: there is no
  fall-back to the model's default. A registered key resolves to the registry's
  function, a callable is returned as it is, and \<^verbatim>\<open>None\<close> stands for the
  model's \<^verbatim>\<open>default_attributed_fn_id\<close>.
\<close>

theorem unregistered_attributed_fn_rejected:
  "(STEP_SCORES_MAP env key = None \<longrightarrow>
      get_attributed_fn env m (Some (FnKey key))
        = Inl (ValueError (''Unknown function: '' @ key
                 @ ''. Register custom functions with inseq.register_step_function''))
      \<and> (attributed_fn a = Some (FnKey key) \<longrightarrow> isl (fst (attribute env a m))))
   \<and> (\<forall>f. STEP_SCORES_MAP env key = Some f \<longrightarrow> get_attributed_fn env m (Some (FnKey key)) = Inr f)
   \<and> get_attributed_fn env m (Some (FnCallable c)) = Inr c
   \<and> get_attributed_fn env m None = get_attributed_fn env m (Some (FnKey (default_attributed_fn_id m)))"
proof -
  have "isl (fst (attribute env a m))"
    if "STEP_SCORES_MAP env key = None" "attributed_fn a = Some (FnKey key)"
  proof (rule attribute_isl_prepare)
    fix p m1
    show "attribute_prepare env a m \<noteq> (Inr p, m1)"
    proof
      assume "attribute_prepare env a m = (Inr p, m1)"
      from prepare_Inr [OF this] have "get_attributed_fn env m (attributed_fn a) = Inr (p_attributed_fn p)"
        by blast
      with that show False by (simp add: get_attributed_fn_def)
    qed
  qed
  then show ?thesis
    by (simp add: get_attributed_fn_def unknown_function_def)
qed

theorem unregistered_attributed_fn_rejected_witness:
  "STEP_SCORES_MAP example_backend ''perplexity'' = None
   \<and> get_attributed_fn example_backend example_model (Some (FnKey ''perplexity''))
        = Inl (ValueError ''Unknown function: perplexity. Register custom functions with inseq.register_step_function'')
   \<and> isl (fst (attribute example_backend (example_args\<lparr>attributed_fn := Some (FnKey ''perplexity'')\<rparr>) example_model))
   \<and> STEP_SCORES_MAP example_backend ''entropy'' = Some (Callable ''entropy_fn'')
   \<and> get_attributed_fn example_backend example_model (Some (FnKey ''entropy'')) = Inr (Callable ''entropy_fn'')"
  using unregistered_attributed_fn_rejected [of example_backend "''perplexity''" example_model
          "example_args\<lparr>attributed_fn := Some (FnKey ''perplexity'')\<rparr>"]
        unregistered_attributed_fn_rejected [of example_backend "''entropy''" example_model]
  by (simp add: example_backend_def)

subsection \<open>The property without a setter\<close>

text \<open>
  Claim C10. The setter written for \<^verbatim>\<open>default_attributed_fn_id\<close> is bound to the
  name \<^verbatim>\<open>set_attributed_fn\<close>, so the property \<^verbatim>\<open>default_attributed_fn_id\<close> itself
  has none: assigning to it raises for every value and leaves the model as it
  was. Assigning through \<^verbatim>\<open>set_attributed_fn\<close> raises a \<^verbatim>\<open>ValueError\<close> naming the
  function when the string is not registered, the stored identifier unchanged,
  and stores a registered key.
\<close>

theorem default_attributed_fn_id_has_no_setter:
  "assign env ''default_attributed_fn_id'' v m = Some (Inl AttributeError, m)
   \<and> (STEP_SCORES_MAP env v = None \<longrightarrow>
        assign env ''set_attributed_fn'' v m
          = Some (Inl (ValueError (''Unknown function: '' @ v
                    @ ''. Register custom functions with inseq.register_step_function'')), m))
   \<and> (STEP_SCORES_MAP env v \<noteq> None \<longrightarrow>
        assign env ''set_attributed_fn'' v m = Some (Inr (), m\<lparr>priv_default_attributed_fn_id := v\<rparr>))"
  by (simp add: assign_def class_properties_def property_def setter_def set_attributed_fn_def
        unknown_function_def)

theorem default_attributed_fn_id_has_no_setter_witness:
  "assign example_backend ''default_attributed_fn_id'' ''entropy'' example_model
      = Some (Inl AttributeError, example_model)
   \<and> STEP_SCORES_MAP example_backend ''perplexity'' = None
   \<and> assign example_backend ''set_attributed_fn'' ''perplexity'' example_model
      = Some (Inl (ValueError ''Unknown function: perplexity. Register custom functions with inseq.register_step_function''),
              example_model)
   \<and> STEP_SCORES_MAP example_backend ''entropy'' \<noteq> None
   \<and> default_attributed_fn_id
        (snd (the (assign example_backend ''set_attributed_fn'' ''entropy'' example_model))) = ''entropy''"
  using default_attributed_fn_id_has_no_setter [of example_backend "''perplexity''" example_model]
        default_attributed_fn_id_has_no_setter [of example_backend "''entropy''" example_model]
  by (simp add: example_backend_def default_attributed_fn_id_def)

subsection \<open>Resolving the attribution method\<close>

text \<open>
  Claim C8. With no method name (\<^verbatim>\<open>None\<close> or the empty string) and no method
  bound to the model, \<^verbatim>\<open>get_attribution_method\<close> raises
  \<^verbatim>\<open>MissingAttributionMethodError\<close> and \<^verbatim>\<open>attribute\<close> returns no result. With
  no name and a bound method, the bound method is returned; with a name, the
  result is what loading that name gives. Whenever a name is given or a method
  is bound, \<^verbatim>\<open>attribute\<close> does not fail with
  \<^verbatim>\<open>MissingAttributionMethodError\<close>.
\<close>

theorem missing_attribution_method_error:
  "(\<not> truthy_str meth \<and> attribution_method m = None \<longrightarrow>
       get_attribution_method env meth ov m = (Inl MissingAttributionMethodError, m))
   \<and> (\<not> truthy_str (method_arg a) \<and> attribution_method m = None \<longrightarrow> isl (fst (attribute env a m)))
   \<and> (\<forall>fa. \<not> truthy_str meth \<and> attribution_method m = Some fa \<longrightarrow>
         get_attribution_method env meth ov m = (Inr fa, m))
   \<and> (\<forall>name. meth = Some name \<and> name \<noteq> [] \<longrightarrow>
         fst (get_attribution_method env meth ov m)
           = (case load env name of Inl msg \<Rightarrow> Inl (Raised msg) | Inr fa \<Rightarrow> Inr fa))
   \<and> (truthy_str (method_arg a) \<or> attribution_method m \<noteq> None \<longrightarrow>
         fst (attribute env a m) \<noteq> Inl MissingAttributionMethodError)"
proof (intro conjI impI allI)
  assume "\<not> truthy_str meth \<and> attribution_method m = None"
  then show "get_attribution_method env meth ov m = (Inl MissingAttributionMethodError, m)"
    by (simp add: get_attribution_method_unnamed)
next
  assume h: "\<not> truthy_str (method_arg a) \<and> attribution_method m = None"
  show "isl (fst (attribute env a m))"
  proof (rule attribute_isl_prepare)
    fix p m1
    show "attribute_prepare env a m \<noteq> (Inr p, m1)"
    proof
      assume "attribute_prepare env a m = (Inr p, m1)"
      from prepare_Inr [OF this]
      have "fst (get_attribution_method env (method_arg a) (override_default_attribution a) m)
              = Inr (p_attribution_method p)"
        by blast
      with h show False by (simp add: get_attribution_method_unnamed)
    qed
  qed
next
  fix fa assume "\<not> truthy_str meth \<and> attribution_method m = Some fa"
  then show "get_attribution_method env meth ov m = (Inr fa, m)"
    by (simp add: get_attribution_method_unnamed)
next
  fix name assume "meth = Some name \<and> name \<noteq> []"
  then show "fst (get_attribution_method env meth ov m)
           = (case load env name of Inl msg \<Rightarrow> Inl (Raised msg) | Inr fa \<Rightarrow> Inr fa)"
    by (simp add: get_attribution_method_named)
next
  assume h: "truthy_str (method_arg a) \<or> attribution_method m \<noteq> None"
  let ?I = "\<lambda>m'. is_encoder_decoder m' = is_encoder_decoder m
              \<and> (truthy_str (method_arg a) \<or> attribution_method m' \<noteq> None)"
  have "holds ?I (\<lambda>e. e \<noteq> MissingAttributionMethodError) (attribute env a)"
  proof (rule holds_attribute [where b = "is_encoder_decoder m"])
    show "holds ?I (\<lambda>e. e \<noteq> MissingAttributionMethodError)
            (get_attribution_method env (method_arg a) (override_default_attribution a))"
      by (rule holds_get_attribution_method_bound)
  qed (auto intro!: holds_resolve)
  from holdsD [OF this _ surjective_pairing] h
  show "fst (attribute env a m) \<noteq> Inl MissingAttributionMethodError"
    by auto
qed

theorem missing_attribution_method_error_witness:
  "\<not> truthy_str None \<and> attribution_method (example_model\<lparr>attribution_method := None\<rparr>) = None
   \<and> get_attribution_method example_backend None False (example_model\<lparr>attribution_method := None\<rparr>)
       = (Inl MissingAttributionMethodError, example_model\<lparr>attribution_method := None\<rparr>)
   \<and> isl (fst (attribute example_backend example_args (example_model\<lparr>attribution_method := None\<rparr>)))
   \<and> get_attribution_method example_backend None False example_model
       = (Inr \<lparr>method_name = ''integrated_gradients''\<rparr>, example_model)
   \<and> fst (get_attribution_method example_backend (Some ''saliency'') False
             (example_model\<lparr>attribution_method := None\<rparr>)) = Inr \<lparr>method_name = ''saliency''\<rparr>
   \<and> fst (attribute example_backend example_args example_model) \<noteq> Inl MissingAttributionMethodError"
  using missing_attribution_method_error [of None "example_model\<lparr>attribution_method := None\<rparr>"
          example_backend False example_args]
        missing_attribution_method_error [of None example_model example_backend False example_args]
        missing_attribution_method_error [of "Some ''saliency''" "example_model\<lparr>attribution_method := None\<rparr>"
          example_backend False example_args]
  by (simp add: example_backend_def example_model_def example_args_def)

subsection \<open>The batch size that is dispatched\<close>

text \<open>
  Claim C2. The batch size that \<^verbatim>\<open>attribute\<close> passes to the attribution
  method's \<^verbatim>\<open>prepare_and_attribute\<close> is 1 when the model is not
  encoder-decoder, target texts were supplied and there is more than one input
  text; or when the model is not encoder-decoder, there is more than one input
  text and \<^verbatim>\<open>attr_pos_start\<close> or \<^verbatim>\<open>attr_pos_end\<close> is set; or when the method
  that receives the call is named \<^verbatim>\<open>lime\<close>. In every other case it is the
  batch size of the caller. None of this raises: once the arguments are
  prepared and the decoder-only check passes (or the model is
  encoder-decoder), the resolved method is called.
\<close>

theorem batch_size_forced_to_one:
  "(\<forall>fa pa. Prepare_and_attribute fa pa \<in> set (emitted m (snd (attribute env a m))) \<longrightarrow>
      d_batch_size pa =
        (if (\<not> is_encoder_decoder m \<and> generated_texts a \<noteq> None \<and> length (as_list (input_texts a)) > 1)
            \<or> (\<not> is_encoder_decoder m \<and> length (as_list (input_texts a)) > 1
                 \<and> (attr_pos_start a \<noteq> None \<or> attr_pos_end a \<noteq> None))
            \<or> method_name fa = ''lime''
         then Some 1 else batch_size a))
   \<and> (\<forall>p m1. attribute_prepare env a m = (Inr p, m1)
          \<and> (is_encoder_decoder m \<or> all_startswith (p_input_texts p) (p_generated_texts p) = Inr True) \<longrightarrow>
        (\<exists>pa. Prepare_and_attribute (p_attribution_method p) pa
                 \<in> set (emitted m (snd (attribute env a m)))))"
proof (intro conjI allI impI)
  fix fa pa
  assume "Prepare_and_attribute fa pa \<in> set (emitted m (snd (attribute env a m)))"
  then obtain p m1 where prep: "attribute_prepare env a m = (Inr p, m1)"
    and fa: "fa = p_attribution_method p"
    and pa: "pa = dispatch_arguments a p
            (if (\<not> is_encoder_decoder m \<and> p_has_generated_texts p \<and> length (p_input_texts p) > 1)
                 \<or> (\<not> is_encoder_decoder m \<and> length (p_input_texts p) > 1
                      \<and> (attr_pos_start a \<noteq> None \<or> attr_pos_end a \<noteq> None))
                 \<or> method_name (p_attribution_method p) = ''lime''
             then Some 1 else batch_size a)"
    by (rule attribute_dispatch_events)
  from prepare_Inr [OF prep]
  have "p_input_texts p = as_list (input_texts a)" "p_has_generated_texts p = (generated_texts a \<noteq> None)"
    by blast+
  with fa pa show "d_batch_size pa =
        (if (\<not> is_encoder_decoder m \<and> generated_texts a \<noteq> None \<and> length (as_list (input_texts a)) > 1)
            \<or> (\<not> is_encoder_decoder m \<and> length (as_list (input_texts a)) > 1
                 \<and> (attr_pos_start a \<noteq> None \<or> attr_pos_end a \<noteq> None))
            \<or> method_name fa = ''lime''
         then Some 1 else batch_size a)"
    by (simp add: dispatch_arguments_def)
next
  fix p m1
  assume "attribute_prepare env a m = (Inr p, m1)
          \<and> (is_encoder_decoder m \<or> all_startswith (p_input_texts p) (p_generated_texts p) = Inr True)"
  then show "\<exists>pa. Prepare_and_attribute (p_attribution_method p) pa
                 \<in> set (emitted m (snd (attribute env a m)))"
    using attribute_dispatches [of env a m p m1] by blast
qed

theorem batch_size_forced_to_one_witness:
  "Prepare_and_attribute \<lparr>method_name = ''integrated_gradients''\<rparr>
     \<lparr>d_input_texts = [''how much'', ''how long''],
      d_generated_texts = [''how much is it'', ''how long is it''],
      d_batch_size = Some 1, d_attr_pos_start = None,
      d_attr_pos_end = None, d_show_progress = True,
      d_pretty_progress = False, d_output_step_attributions = False,
      d_attribute_target = False, d_step_scores = [],
      d_include_eos_baseline = False,
      d_attributed_fn = Callable ''probability_fn'',
      d_attribution_args = [(''n_steps'', PInt 10)],
      d_attributed_fn_args = [], d_step_scores_args = []\<rparr>
     \<in> set (emitted example_model (snd (attribute example_backend two_texts_args example_model)))
   \<and> batch_size two_texts_args = Some 4
   \<and> \<not> is_encoder_decoder example_model
   \<and> generated_texts two_texts_args \<noteq> None
   \<and> length (as_list (input_texts two_texts_args)) > 1"
  using batch_size_forced_to_one [of example_model example_backend two_texts_args]
  by (simp add: run_defs example_defs two_texts_args_def)

subsection \<open>Forced generations of decoder-only models\<close>

text \<open>
  Claim C5. On a model that is not encoder-decoder: when control reaches the
  check with resolved texts of which one does not start with its input text,
  \<^verbatim>\<open>attribute\<close> fails with the assertion's message, and nothing was dispatched;
  when every resolved text starts with its input text the check passes and the
  attribution method is called. Hence every dispatch, and every result
  returned, has texts that start with their input texts.
\<close>

theorem decoder_only_forced_generation_prefix:
  assumes dec: "\<not> is_encoder_decoder m"
  shows "(\<forall>p m1. attribute_prepare env a m = (Inr p, m1)
            \<and> length (as_list (input_texts a)) \<le> length (p_generated_texts p)
            \<and> (\<exists>i<length (as_list (input_texts a)).
                  \<not> prefix (as_list (input_texts a) ! i) (p_generated_texts p ! i)) \<longrightarrow>
            attribute env a m
              = (Inl (AssertionError
                   ''Forced generations with decoder-only models must start with the input texts.''), m1)
            \<and> (\<forall>fa pa. Prepare_and_attribute fa pa \<notin> set (emitted m m1)))
     \<and> (\<forall>p m1. attribute_prepare env a m = (Inr p, m1)
            \<and> length (as_list (input_texts a)) \<le> length (p_generated_texts p)
            \<and> (\<forall>i<length (as_list (input_texts a)).
                  prefix (as_list (input_texts a) ! i) (p_generated_texts p ! i)) \<longrightarrow>
            (\<exists>pa. Prepare_and_attribute (p_attribution_method p) pa
                     \<in> set (emitted m (snd (attribute env a m)))))
     \<and> (\<forall>fa pa. Prepare_and_attribute fa pa \<in> set (emitted m (snd (attribute env a m))) \<longrightarrow>
            length (d_input_texts pa) \<le> length (d_generated_texts pa)
            \<and> (\<forall>i<length (d_input_texts pa). prefix (d_input_texts pa ! i) (d_generated_texts pa ! i)))
     \<and> (\<forall>out m'. attribute env a m = (Inr out, m') \<longrightarrow>
            (\<exists>gts. info out ''input_texts'' = Some (PStrList (as_list (input_texts a)))
               \<and> info out ''generated_texts'' = Some (PStrList gts)
               \<and> length (as_list (input_texts a)) \<le> length gts
               \<and> (\<forall>i<length (as_list (input_texts a)). prefix (as_list (input_texts a) ! i) (gts ! i))))"
    (is "?fails \<and> ?passes \<and> ?dispatched \<and> ?returned")
proof -
  have fails: ?fails
  proof (intro allI impI)
    fix p m1
    assume h: "attribute_prepare env a m = (Inr p, m1)
            \<and> length (as_list (input_texts a)) \<le> length (p_generated_texts p)
            \<and> (\<exists>i<length (as_list (input_texts a)).
                  \<not> prefix (as_list (input_texts a) ! i) (p_generated_texts p ! i))"
    then have prep: "attribute_prepare env a m = (Inr p, m1)" by blast
    from prepare_Inr [OF prep] have its: "p_input_texts p = as_list (input_texts a)" by blast
    from prepare_events [OF prep] obtain new where enc: "is_encoder_decoder m1 = is_encoder_decoder m"
      and new: "events m1 = events m @ new" "\<forall>e\<in>set new. \<forall>fa pa. e \<noteq> Prepare_and_attribute fa pa"
      by blast
    from h its have "all_startswith (p_input_texts p) (p_generated_texts p) = Inr False"
      by (simp add: all_startswith_False)
    with dec enc have "attribute_run env a p m1 = (Inl (AssertionError forced_generation_message), m1)"
      by (simp add: run_assertion)
    with prep have 1: "attribute env a m
              = (Inl (AssertionError
                   ''Forced generations with decoder-only models must start with the input texts.''), m1)"
      by (simp add: attribute_prepare_Inr forced_generation_message_def)
    have 2: "Prepare_and_attribute fa pa \<notin> set (emitted m m1)" for fa pa
    proof -
      from new(2) have "Prepare_and_attribute fa pa \<notin> set new" by blast
      with new(1) show ?thesis by (simp add: emitted_def)
    qed
    from 1 2 show "attribute env a m
              = (Inl (AssertionError
                   ''Forced generations with decoder-only models must start with the input texts.''), m1)
            \<and> (\<forall>fa pa. Prepare_and_attribute fa pa \<notin> set (emitted m m1))"
      by blast
  qed
  have passes: ?passes
  proof (intro allI impI)
    fix p m1
    assume h: "attribute_prepare env a m = (Inr p, m1)
            \<and> length (as_list (input_texts a)) \<le> length (p_generated_texts p)
            \<and> (\<forall>i<length (as_list (input_texts a)).
                  prefix (as_list (input_texts a) ! i) (p_generated_texts p ! i))"
    then have prep: "attribute_prepare env a m = (Inr p, m1)" by blast
    from prepare_Inr [OF prep] have its: "p_input_texts p = as_list (input_texts a)" by blast
    from h its have "all_startswith (p_input_texts p) (p_generated_texts p) = Inr True"
      by (simp add: all_startswith_True)
    with attribute_dispatches [OF prep]
    show "\<exists>pa. Prepare_and_attribute (p_attribution_method p) pa
                     \<in> set (emitted m (snd (attribute env a m)))"
      by blast
  qed
  have dispatched: ?dispatched
  proof (intro allI impI)
    fix fa pa
    assume "Prepare_and_attribute fa pa \<in> set (emitted m (snd (attribute env a m)))"
    then obtain p bs where pa: "pa = dispatch_arguments a p bs"
      and ok: "is_encoder_decoder m \<or> all_startswith (p_input_texts p) (p_generated_texts p) = Inr True"
      by (rule attribute_dispatch_events)
    with dec have "all_startswith (d_input_texts pa) (d_generated_texts pa) = Inr True"
      by (simp add: dispatch_arguments_def)
    then show "length (d_input_texts pa) \<le> length (d_generated_texts pa)
            \<and> (\<forall>i<length (d_input_texts pa). prefix (d_input_texts pa ! i) (d_generated_texts pa ! i))"
      by (simp add: all_startswith_True)
  qed
  have returned: ?returned
  proof (intro allI impI)
    fix out m'
    assume "attribute env a m = (Inr out, m')"
    then obtain p m1 where prep: "attribute_prepare env a m = (Inr p, m1)"
      and run: "attribute_run env a p m1 = (Inr out, m')"
      by (rule attribute_InrE)
    from prepare_Inr [OF prep] have its: "p_input_texts p = as_list (input_texts a)" by blast
    from prepare_events [OF prep] have enc: "is_encoder_decoder m1 = is_encoder_decoder m" by blast
    from run_Inr_check [OF run] dec enc
    have "all_startswith (p_input_texts p) (p_generated_texts p) = Inr True" by simp
    with its have ok: "length (as_list (input_texts a)) \<le> length (p_generated_texts p)
               \<and> (\<forall>i<length (as_list (input_texts a)).
                     prefix (as_list (input_texts a) ! i) (p_generated_texts p ! i))"
      by (simp add: all_startswith_True)
    from run_Inr [OF run] obtain merged where "out = attach_info p merged" by blast
    with its have "info out ''input_texts'' = Some (PStrList (as_list (input_texts a)))"
      "info out ''generated_texts'' = Some (PStrList (p_generated_texts p))"
      by (simp_all add: attach_info_def)
    with ok show "\<exists>gts. info out ''input_texts'' = Some (PStrList (as_list (input_texts a)))
               \<and> info out ''generated_texts'' = Some (PStrList gts)
               \<and> length (as_list (input_texts a)) \<le> length gts
               \<and> (\<forall>i<length (as_list (input_texts a)). prefix (as_list (input_texts a) ! i) (gts ! i))"
      by blast
  qed
  show ?thesis
    by (rule conjI [OF fails conjI [OF passes conjI [OF dispatched returned]]])
qed

theorem decoder_only_forced_generation_prefix_witness:
  "\<not> is_encoder_decoder example_model
   \<and> \<not> prefix ''how much is the cake?'' ''the cake costs 350 rubles''
   \<and> fst (attribute example_backend
            (example_args\<lparr>generated_texts := Some (Single ''the cake costs 350 rubles'')\<rparr>)
            example_model)
       = Inl (AssertionError
                ''Forced generations with decoder-only models must start with the input texts.'')
   \<and> prefix ''how much is the cake?'' ''how much is the cake? 350 rubles''
   \<and> \<not> isl (fst (attribute example_backend example_args example_model))"
  using decoder_only_forced_generation_prefix
          [of example_model example_backend
              "example_args\<lparr>generated_texts := Some (Single ''the cake costs 350 rubles'')\<rparr>"]
        decoder_only_forced_generation_prefix [of example_model example_backend example_args]
  by (simp add: run_defs example_defs)

subsection \<open>Empty and mismatched texts\<close>

text \<open>
  Claim C6. With an empty input (an empty string or an empty list),
  \<^verbatim>\<open>attribute\<close> raises the \<^verbatim>\<open>ValueError\<close> of line 229 at once: nothing is
  logged, called or changed. With supplied target texts whose number differs
  from the number of input texts, \<^verbatim>\<open>attribute\<close> returns no result and nothing
  is dispatched; the error is the length-mismatch error whenever the device
  override that precedes the normalisation (lines 239-240), if there is one,
  does not itself fail.
\<close>

theorem empty_or_mismatched_texts_rejected:
  "(\<not> truthy_text_input (input_texts a) \<longrightarrow>
      attribute env a m
        = (Inl (ValueError ''At least one text must be provided to perform attribution.''), m))
   \<and> (\<forall>g. truthy_text_input (input_texts a) \<and> generated_texts a = Some g
          \<and> length (as_list g) \<noteq> length (as_list (input_texts a)) \<longrightarrow>
        isl (fst (attribute env a m))
        \<and> (\<forall>fa pa. Prepare_and_attribute fa pa \<notin> set (emitted m (snd (attribute env a m))))
        \<and> ((\<forall>d. device_arg a = Some d \<longrightarrow>
                check_device env d = None \<and> (model m \<longrightarrow> model_to env d = None)) \<longrightarrow>
             fst (attribute env a m) = Inl LengthMismatchError))"
    (is "?empty \<and> ?mismatch")
proof -
  have empty: ?empty
    by (simp add: attribute_empty)
  have mismatch: ?mismatch
  proof (intro allI impI)
    fix g
    assume h: "truthy_text_input (input_texts a) \<and> generated_texts a = Some g
          \<and> length (as_list g) \<noteq> length (as_list (input_texts a))"
    have never: "attribute_prepare env a m \<noteq> (Inr p, m1)" for p m1
    proof
      assume "attribute_prepare env a m = (Inr p, m1)"
      from prepare_Inr [OF this]
      have "\<forall>g. generated_texts a = Some g \<longrightarrow> length (as_list g) = length (as_list (input_texts a))"
        by blast
      with h show False by blast
    qed
    then have 1: "isl (fst (attribute env a m))"
      by (rule attribute_isl_prepare)
    have 2: "Prepare_and_attribute fa pa \<notin> set (emitted m (snd (attribute env a m)))" for fa pa
    proof
      assume "Prepare_and_attribute fa pa \<in> set (emitted m (snd (attribute env a m)))"
      then obtain p m1 where "attribute_prepare env a m = (Inr p, m1)"
        by (rule attribute_dispatch_events)
      with never show False by blast
    qed
    have 3: "fst (attribute env a m) = Inl LengthMismatchError"
      if dev: "\<forall>d. device_arg a = Some d \<longrightarrow>
                check_device env d = None \<and> (model m \<longrightarrow> model_to env d = None)"
    proof -
      from h dev have "fst (attribute_prepare env a m) = Inl LengthMismatchError"
        by (intro prepare_mismatch [where g = g]) auto
      then obtain m1 where "attribute_prepare env a m = (Inl LengthMismatchError, m1)"
        by (cases "attribute_prepare env a m") auto
      then show ?thesis by (simp add: attribute_prepare_Inl)
    qed
    from 1 2 3 show "isl (fst (attribute env a m))
        \<and> (\<forall>fa pa. Prepare_and_attribute fa pa \<notin> set (emitted m (snd (attribute env a m))))
        \<and> ((\<forall>d. device_arg a = Some d \<longrightarrow>
                check_device env d = None \<and> (model m \<longrightarrow> model_to env d = None)) \<longrightarrow>
             fst (attribute env a m) = Inl LengthMismatchError)"
      by blast
  qed
  from empty mismatch show ?thesis ..
qed

theorem empty_or_mismatched_texts_rejected_witness:
  "\<not> truthy_text_input (input_texts (example_args\<lparr>input_texts := Many []\<rparr>))
   \<and> attribute example_backend (example_args\<lparr>input_texts := Many []\<rparr>) example_model
       = (Inl (ValueError ''At least one text must be provided to perform attribution.''), example_model)
   \<and> truthy_text_input (input_texts (example_args\<lparr>input_texts := Many [''how much'', ''how long'']\<rparr>))
   \<and> length (as_list (Single ''how much is the cake? 350 rubles'')) \<noteq> length [''how much'', ''how long'']
   \<and> device_arg example_args = None
   \<and> fst (attribute example_backend (example_args\<lparr>input_texts := Many [''how much'', ''how long'']\<rparr>)
             example_model) = Inl LengthMismatchError"
  using empty_or_mismatched_texts_rejected
          [of "example_args\<lparr>input_texts := Many []\<rparr>" example_backend example_model]
        empty_or_mismatched_texts_rejected
          [of "example_args\<lparr>input_texts := Many [''how much'', ''how long'']\<rparr>" example_backend example_model]
  by (simp add: run_defs example_defs)

subsection \<open>The device override\<close>

text \<open>
  Claim C1, as stated, fails, in two ways. The device is restored only under
  the guard of line 311, \<^verbatim>\<open>if device and original_device\<close>: a model whose
  device was never set returns normally from a call with \<^verbatim>\<open>device="cuda"\<close>
  and is left on \<^verbatim>\<open>cuda\<close>, which is not its device before the call. And
  the restoring statement is the last one of the function body, outside any
  \<^verbatim>\<open>try\<close>: a call with \<^verbatim>\<open>device="cuda"\<close> on a model on \<^verbatim>\<open>cpu\<close> that has no
  attribution method fails with the missing-method error of line 259 and
  leaves the model on \<^verbatim>\<open>cuda\<close>.
\<close>

theorem device_not_restored_counterexample:
  "device_arg (example_args\<lparr>device_arg := Some ''cuda''\<rparr>) \<noteq> None
   \<and> \<not> isl (fst (attribute example_backend (example_args\<lparr>device_arg := Some ''cuda''\<rparr>)
                   (example_model\<lparr>priv_device := None\<rparr>)))
   \<and> device (example_model\<lparr>priv_device := None\<rparr>) = None
   \<and> device (snd (attribute example_backend (example_args\<lparr>device_arg := Some ''cuda''\<rparr>)
                   (example_model\<lparr>priv_device := None\<rparr>))) = Some ''cuda''
   \<and> fst (attribute example_backend (example_args\<lparr>device_arg := Some ''cuda''\<rparr>)
             (example_model\<lparr>attribution_method := None\<rparr>)) = Inl MissingAttributionMethodError
   \<and> device (example_model\<lparr>attribution_method := None\<rparr>) = Some ''cpu''
   \<and> device (snd (attribute example_backend (example_args\<lparr>device_arg := Some ''cuda''\<rparr>)
                   (example_model\<lparr>attribution_method := None\<rparr>))) = Some ''cuda''"
  by (simp add: run_defs example_defs)

text \<open>
  Claim C1, amended. When a call of \<^verbatim>\<open>attribute\<close> with a non-empty \<^verbatim>\<open>device\<close>
  argument returns normally on a model whose device before the call is set and
  non-empty, the model's device after the call is its device before the call.
  When the call fails on an empty input, the device was never touched.
\<close>

theorem device_restored_on_return:
  "(\<forall>out m' d d0. attribute env a m = (Inr out, m') \<and> device_arg a = Some d \<and> d \<noteq> []
        \<and> device m = Some d0 \<and> d0 \<noteq> [] \<longrightarrow> device m' = device m)
   \<and> (\<not> truthy_text_input (input_texts a) \<longrightarrow> device (snd (attribute env a m)) = device m)"
proof (intro conjI allI impI)
  fix out m' d d0
  assume h: "attribute env a m = (Inr out, m') \<and> device_arg a = Some d \<and> d \<noteq> []
        \<and> device m = Some d0 \<and> d0 \<noteq> []"
  then obtain p m1 where prep: "attribute_prepare env a m = (Inr p, m1)"
    and run: "attribute_run env a p m1 = (Inr out, m')"
    by (blast elim: attribute_InrE)
  from prepare_Inr [OF prep] have "p_original_device p = priv_device m" by blast
  with run_Inr [OF run] h show "device m' = device m"
    by (simp add: device_def)
next
  assume "\<not> truthy_text_input (input_texts a)"
  then show "device (snd (attribute env a m)) = device m"
    by (simp add: attribute_empty)
qed

theorem device_restored_on_return_witness:
  "\<not> isl (fst (attribute example_backend (example_args\<lparr>device_arg := Some ''cuda''\<rparr>) example_model))
   \<and> device_arg (example_args\<lparr>device_arg := Some ''cuda''\<rparr>) = Some ''cuda''
   \<and> device example_model = Some ''cpu''
   \<and> device (snd (attribute example_backend (example_args\<lparr>device_arg := Some ''cuda''\<rparr>) example_model))
        = Some ''cpu''
   \<and> Model_to ''cuda'' \<in> set (emitted example_model
         (snd (attribute example_backend (example_args\<lparr>device_arg := Some ''cuda''\<rparr>) example_model)))"
  using device_restored_on_return
          [of example_backend "example_args\<lparr>device_arg := Some ''cuda''\<rparr>" example_model]
  by (simp add: run_defs example_defs)

subsection \<open>A method for one call only\<close>

text \<open>
  Claim C9, as stated, fails: line 129 unhooks the bound method whenever a
  method name is given, also when the name is for one call only. Calling
  \<^verbatim>\<open>attribute\<close> with \<^verbatim>\<open>method="saliency"\<close> on a model with integrated
  gradients bound, without overriding the default, unhooks integrated
  gradients.
\<close>

theorem one_off_override_unhooks_counterexample:
  "attribution_method example_model = Some \<lparr>method_name = ''integrated_gradients''\<rparr>
   \<and> \<not> override_default_attribution (example_args\<lparr>method_arg := Some ''saliency''\<rparr>)
   \<and> Unhook \<lparr>method_name = ''integrated_gradients''\<rparr>
        \<in> set (emitted example_model
                 (snd (attribute example_backend (example_args\<lparr>method_arg := Some ''saliency''\<rparr>) example_model)))"
  by (simp add: run_defs example_defs)

text \<open>
  Claim C9, amended. With a method name given: if a method is bound and the
  default is not to be overridden, the bound method is unhooked, the named one
  is loaded and returned, and the model's \<^verbatim>\<open>attribution_method\<close> stays the
  bound one, also after the whole call of \<^verbatim>\<open>attribute\<close>; if the default is to
  be overridden, the bound method is unhooked first and the loaded one replaces
  it; if no method is bound, the loaded one is bound and nothing is unhooked.
\<close>

theorem one_off_override_keeps_default_and_unhooks:
  assumes named: "meth = Some name" "name \<noteq> []"
  shows "(\<forall>bound. attribution_method m = Some bound \<and> \<not> ov \<longrightarrow>
            get_attribution_method env meth ov m
              = (case load env name of Inl msg \<Rightarrow> Inl (Raised msg) | Inr fa \<Rightarrow> Inr fa,
                 m\<lparr>events := events m @ [Unhook bound, Load name]\<rparr>))
       \<and> (\<forall>bound fa. attribution_method m = Some bound \<and> ov \<and> load env name = Inr fa \<longrightarrow>
            get_attribution_method env meth ov m
              = (Inr fa, m\<lparr>attribution_method := Some fa,
                           events := events m @ [Unhook bound, Load name]\<rparr>))
       \<and> (\<forall>fa. attribution_method m = None \<and> load env name = Inr fa \<longrightarrow>
            get_attribution_method env meth ov m
              = (Inr fa, m\<lparr>attribution_method := Some fa, events := events m @ [Load name]\<rparr>))
       \<and> (\<forall>bound. method_arg a = meth \<and> \<not> override_default_attribution a
              \<and> attribution_method m = Some bound \<longrightarrow>
            attribution_method (snd (attribute env a m)) = Some bound)"
    (is "?one_off \<and> ?override \<and> ?unbound \<and> ?kept")
proof -
  have one_off: ?one_off
    by (cases "load env name") (simp_all add: get_attribution_method_named [OF named])
  have override: ?override
    by (simp add: get_attribution_method_named [OF named])
  have unbound: ?unbound
    by (simp add: get_attribution_method_named [OF named])
  have kept: ?kept
  proof (intro allI impI)
    fix bound
    assume h: "method_arg a = meth \<and> \<not> override_default_attribution a
              \<and> attribution_method m = Some bound"
    let ?I = "\<lambda>m'. is_encoder_decoder m' = is_encoder_decoder m \<and> attribution_method m' = Some bound"
    have "holds ?I (\<lambda>_. True) (attribute env a)"
    proof (rule holds_attribute [where b = "is_encoder_decoder m"])
      show "holds ?I (\<lambda>_. True)
              (get_attribution_method env (method_arg a) (override_default_attribution a))"
        using h named by (intro holds_get_attribution_method_one_off) auto
    qed (auto intro!: holds_resolve)
    from holdsD [OF this _ surjective_pairing] h
    show "attribution_method (snd (attribute env a m)) = Some bound"
      by auto
  qed
  show ?thesis
    by (rule conjI [OF one_off conjI [OF override conjI [OF unbound kept]]])
qed

theorem one_off_override_keeps_default_and_unhooks_witness:
  "attribution_method example_model = Some \<lparr>method_name = ''integrated_gradients''\<rparr>
   \<and> get_attribution_method example_backend (Some ''saliency'') False example_model
       = (Inr \<lparr>method_name = ''saliency''\<rparr>,
          example_model\<lparr>events := [Unhook \<lparr>method_name = ''integrated_gradients''\<rparr>, Load ''saliency'']\<rparr>)
   \<and> load example_backend ''saliency'' = Inr \<lparr>method_name = ''saliency''\<rparr>
   \<and> get_attribution_method example_backend (Some ''saliency'') True example_model
       = (Inr \<lparr>method_name = ''saliency''\<rparr>,
          example_model\<lparr>attribution_method := Some \<lparr>method_name = ''saliency''\<rparr>,
            events := [Unhook \<lparr>method_name = ''integrated_gradients''\<rparr>, Load ''saliency'']\<rparr>)
   \<and> get_attribution_method example_backend (Some ''saliency'') False
         (example_model\<lparr>attribution_method := None\<rparr>)
       = (Inr \<lparr>method_name = ''saliency''\<rparr>,
          example_model\<lparr>attribution_method := Some \<lparr>method_name = ''saliency''\<rparr>,
            events := [Load ''saliency'']\<rparr>)
   \<and> attribution_method
        (snd (attribute example_backend (example_args\<lparr>method_arg := Some ''saliency''\<rparr>) example_model))
       = Some \<lparr>method_name = ''integrated_gradients''\<rparr>"
  using one_off_override_keeps_default_and_unhooks
          [of "Some ''saliency''" "''saliency''" example_model False example_backend
              "example_args\<lparr>method_arg := Some ''saliency''\<rparr>"]
        one_off_override_keeps_default_and_unhooks
          [of "Some ''saliency''" "''saliency''" example_model True example_backend]
        one_off_override_keeps_default_and_unhooks
          [of "Some ''saliency''" "''saliency''" "example_model\<lparr>attribution_method := None\<rparr>"
              False example_backend]
  by (simp add: example_defs)

subsection \<open>Constrained decoding\<close>

text \<open>
  Claim C3. When target texts are supplied and \<^verbatim>\<open>generate_from_target_prefix\<close>
  is \<^verbatim>\<open>False\<close>: a result that \<^verbatim>\<open>attribute\<close> returns has
  \<^verbatim>\<open>constrained_decoding\<close> equal to \<^verbatim>\<open>True\<close> and \<^verbatim>\<open>generated_texts\<close> equal to
  the supplied texts as a list (a single string as a list of one) in its
  \<^verbatim>\<open>info\<close>, and generation arguments that were supplied were logged as
  ignored; the generation backend is not called, whatever the outcome; and the
  step that takes the supplied texts never raises, with or without generation
  arguments.
\<close>

theorem constrained_decoding_metadata:
  assumes gen: "generated_texts a = Some g"
      and full: "\<not> generate_from_target_prefix a"
  shows "(\<forall>out m'. attribute env a m = (Inr out, m') \<longrightarrow>
            info out ''constrained_decoding'' = Some (PBool True)
          \<and> info out ''generated_texts'' = Some (PStrList (as_list g))
          \<and> (generation_args a \<noteq> [] \<longrightarrow>
                Log Warning (Generation_args_ignored (generation_args a)) \<in> set (emitted m m')))
       \<and> (\<forall>enc ga. Generate enc ga \<notin> set (emitted m (snd (attribute env a m))))
       \<and> (\<forall>texts m0. resolve_generated_texts env a texts (Some (as_list g)) False m0
            = (Inr (as_list g, generation_args a),
               if generation_args a \<noteq> []
               then m0\<lparr>events := events m0 @ [Log Warning (Generation_args_ignored (generation_args a))]\<rparr>
               else m0))"
    (is "?returned \<and> ?not_generated \<and> ?step")
proof -
  have returned: ?returned
  proof (intro allI impI)
    fix out m'
    assume "attribute env a m = (Inr out, m')"
    then obtain p m1 where prep: "attribute_prepare env a m = (Inr p, m1)"
      and run: "attribute_run env a p m1 = (Inr out, m')"
      by (rule attribute_InrE)
    from prepare_Inr [OF prep] gen full
    have p: "p_has_generated_texts p" "p_generated_texts p = as_list g"
      and w: "generation_args a \<noteq> [] \<longrightarrow>
                Log Warning (Generation_args_ignored (generation_args a)) \<in> set (emitted m m1)"
      and g0: "grown m m1"
      by auto
    from run_Inr [OF run] obtain merged where "out = attach_info p merged" by blast
    with p have 1: "info out ''constrained_decoding'' = Some (PBool True)"
      "info out ''generated_texts'' = Some (PStrList (as_list g))"
      by (simp_all add: attach_info_def)
    from grown_emitted_mono [OF g0 run_grown [OF run]] w
    have "generation_args a \<noteq> [] \<longrightarrow>
                Log Warning (Generation_args_ignored (generation_args a)) \<in> set (emitted m m')"
      by blast
    with 1 show "info out ''constrained_decoding'' = Some (PBool True)
          \<and> info out ''generated_texts'' = Some (PStrList (as_list g))
          \<and> (generation_args a \<noteq> [] \<longrightarrow>
                Log Warning (Generation_args_ignored (generation_args a)) \<in> set (emitted m m'))"
      by blast
  qed
  have not_generated: ?not_generated
  proof (intro allI)
    fix enc ga
    let ?I = "\<lambda>m'. is_encoder_decoder m' = is_encoder_decoder m
       \<and> (\<exists>new. events m' = events m @ new \<and> (\<forall>e\<in>set new. \<forall>enc ga. e \<noteq> Generate enc ga))"
    have "holds ?I (\<lambda>_. True) (attribute env a)"
    proof (rule holds_attribute [where b = "is_encoder_decoder m"])
      fix texts
      show "holds ?I (\<lambda>_. True) (resolve_generated_texts env a texts
                   (map_option as_list (generated_texts a))
                   (generate_from_target_prefix a \<and> is_encoder_decoder m))"
        unfolding gen using full
        by (simp, intro holds_resolve_constrained) auto
    next
      show "holds ?I (\<lambda>_. True)
              (get_attribution_method env (method_arg a) (override_default_attribution a))"
        by (rule holds_get_attribution_method_frame) auto
    qed auto
    moreover have "?I m" by simp
    ultimately have "?I (snd (attribute env a m))"
      using holdsD [of ?I "\<lambda>_. True" "attribute env a" m "fst (attribute env a m)" "snd (attribute env a m)"]
      by simp
    then obtain new where "events (snd (attribute env a m)) = events m @ new"
      "\<forall>e\<in>set new. \<forall>enc ga. e \<noteq> Generate enc ga"
      by blast
    then show "Generate enc ga \<notin> set (emitted m (snd (attribute env a m)))"
      by (auto simp: emitted_def)
  qed
  have step: ?step
    by (simp add: resolve_constrained)
  show ?thesis
    by (rule conjI [OF returned conjI [OF not_generated step]])
qed

theorem constrained_decoding_metadata_witness:
  "generated_texts (example_args\<lparr>generation_args := [(''max_new_tokens'', PInt 5)]\<rparr>)
      = Some (Single ''how much is the cake? 350 rubles'')
   \<and> \<not> generate_from_target_prefix (example_args\<lparr>generation_args := [(''max_new_tokens'', PInt 5)]\<rparr>)
   \<and> \<not> isl (fst (attribute example_backend
                    (example_args\<lparr>generation_args := [(''max_new_tokens'', PInt 5)]\<rparr>) example_model))
   \<and> info (projr (fst (attribute example_backend
                    (example_args\<lparr>generation_args := [(''max_new_tokens'', PInt 5)]\<rparr>) example_model)))
        ''constrained_decoding'' = Some (PBool True)
   \<and> info (projr (fst (attribute example_backend
                    (example_args\<lparr>generation_args := [(''max_new_tokens'', PInt 5)]\<rparr>) example_model)))
        ''generated_texts'' = Some (PStrList [''how much is the cake? 350 rubles''])
   \<and> Log Warning (Generation_args_ignored [(''max_new_tokens'', PInt 5)])
        \<in> set (emitted example_model (snd (attribute example_backend
                    (example_args\<lparr>generation_args := [(''max_new_tokens'', PInt 5)]\<rparr>) example_model)))"
  using constrained_decoding_metadata
          [of "example_args\<lparr>generation_args := [(''max_new_tokens'', PInt 5)]\<rparr>"
              "Single ''how much is the cake? 350 rubles''" example_backend example_model]
  by (simp add: run_defs example_defs)

subsection \<open>Flags of encoder-decoder models\<close>




end
